theory Spec2Isabelle
  imports Main "HOL-Library.AList"
begin

section \<open>JSON values and the platform functions the synchroniser calls\<close>

text \<open>
  The synchroniser (\<^verbatim>\<open>abstractSynchronizer.ts\<close>) stores and exchanges JSON text. The values
  that \<^verbatim>\<open>JSON.parse\<close> produces are modelled by the datatype \<open>json\<close>. Numbers are integers
  (an envelope's \<^verbatim>\<open>version\<close> is a small natural number); an object is the list of its own
  properties in insertion order, read with \<open>map_of\<close>. JavaScript's \<^verbatim>\<open>undefined\<close> is the
  \<open>None\<close> of a property lookup, \<^verbatim>\<open>null\<close> is \<open>JNull\<close>.
\<close>

datatype json =
    JNull
  | JBool bool
  | JNum int
  | JStr string
  | JArr "json list"
  | JObj "(string \<times> json) list"

subsection \<open>Decimal numerals\<close>

definition digit_char :: "nat \<Rightarrow> char" where
  "digit_char d = char_of (48 + d)"

function show_nat :: "nat \<Rightarrow> string" where
  "show_nat n = (if n < 10 then [digit_char n] else show_nat (n div 10) @ [digit_char (n mod 10)])"
  by pat_completeness auto
termination
  by (relation "measure id") auto

declare show_nat.simps [simp del]

definition show_int :: "int \<Rightarrow> string" where
  "show_int i = (if i < 0 then CHR ''-'' # show_nat (nat (- i)) else show_nat (nat i))"

subsection \<open>\<^verbatim>\<open>JSON.stringify\<close>\<close>

definition hex_char :: "nat \<Rightarrow> char" where
  "hex_char d = (if d < 10 then char_of (48 + d) else char_of (87 + d))"

definition quote_char :: "char \<Rightarrow> string" where
  "quote_char c =
     (if c = CHR 0x22 then [CHR 0x5C, CHR 0x22]
      else if c = CHR 0x5C then [CHR 0x5C, CHR 0x5C]
      else if c = CHR 0x08 then [CHR 0x5C, CHR ''b'']
      else if c = CHR 0x09 then [CHR 0x5C, CHR ''t'']
      else if c = CHR 0x0A then [CHR 0x5C, CHR ''n'']
      else if c = CHR 0x0C then [CHR 0x5C, CHR ''f'']
      else if c = CHR 0x0D then [CHR 0x5C, CHR ''r'']
      else if (of_char c :: nat) < 32
        then [CHR 0x5C, CHR ''u'', CHR ''0'', CHR ''0'',
              hex_char (of_char c div 16), hex_char (of_char c mod 16)]
      else [c])"

definition quote :: "string \<Rightarrow> string" where
  "quote s = CHR 0x22 # concat (map quote_char s) @ [CHR 0x22]"

fun join :: "string \<Rightarrow> string list \<Rightarrow> string" where
  "join sep [] = []"
| "join sep [x] = x"
| "join sep (x # y # ys) = x @ sep @ join sep (y # ys)"

fun JSON_stringify :: "json \<Rightarrow> string"
  and stringify_elements :: "json list \<Rightarrow> string list"
  and stringify_members :: "(string \<times> json) list \<Rightarrow> string list" where
  "JSON_stringify JNull = ''null''"
| "JSON_stringify (JBool b) = (if b then ''true'' else ''false'')"
| "JSON_stringify (JNum n) = show_int n"
| "JSON_stringify (JStr s) = quote s"
| "JSON_stringify (JArr xs) = ''['' @ join '','' (stringify_elements xs) @ '']''"
| "JSON_stringify (JObj kvs) = ''{'' @ join '','' (stringify_members kvs) @ ''}''"
| "stringify_elements [] = []"
| "stringify_elements (x # xs) = JSON_stringify x # stringify_elements xs"
| "stringify_members [] = []"
| "stringify_members (kv # kvs) =
     (quote (fst kv) @ '':'' @ JSON_stringify (snd kv)) # stringify_members kvs"

subsection \<open>\<^verbatim>\<open>JSON.parse\<close>\<close>

text \<open>
  A recursive-descent parser for the JSON grammar, with the nesting bounded by a fuel that
  \<open>JSON_parse\<close> sets from the length of the text, so that it never runs out. \<open>None\<close> is
  the \<^verbatim>\<open>SyntaxError\<close> of \<^verbatim>\<open>JSON.parse\<close>. Numbers are integer literals; a repeated key
  keeps its first position and its last value, as an assignment to an existing property does.
\<close>

definition is_ws :: "char \<Rightarrow> bool" where
  "is_ws c = (c = CHR '' '' \<or> c = CHR 0x09 \<or> c = CHR 0x0A \<or> c = CHR 0x0D)"

definition skip_ws :: "string \<Rightarrow> string" where
  "skip_ws cs = dropWhile is_ws cs"

definition is_digit :: "char \<Rightarrow> bool" where
  "is_digit c = (48 \<le> (of_char c :: nat) \<and> (of_char c :: nat) \<le> 57)"

definition hex_val :: "char \<Rightarrow> nat option" where
  "hex_val c =
     (let n = (of_char c :: nat) in
      if 48 \<le> n \<and> n \<le> 57 then Some (n - 48)
      else if 97 \<le> n \<and> n \<le> 102 then Some (n - 87)
      else if 65 \<le> n \<and> n \<le> 70 then Some (n - 55)
      else None)"

definition unescape :: "char \<Rightarrow> char option" where
  "unescape e =
     (if e = CHR 0x22 then Some (CHR 0x22)
      else if e = CHR 0x5C then Some (CHR 0x5C)
      else if e = CHR ''/'' then Some (CHR ''/'')
      else if e = CHR ''b'' then Some (CHR 0x08)
      else if e = CHR ''f'' then Some (CHR 0x0C)
      else if e = CHR ''n'' then Some (CHR 0x0A)
      else if e = CHR ''r'' then Some (CHR 0x0D)
      else if e = CHR ''t'' then Some (CHR 0x09)
      else None)"

definition unicode_escape :: "char \<Rightarrow> char \<Rightarrow> char \<Rightarrow> char \<Rightarrow> char option" where
  "unicode_escape a b c d =
     (case (hex_val a, hex_val b, hex_val c, hex_val d) of
        (Some 0, Some 0, Some h, Some l) \<Rightarrow> Some (char_of (16 * h + l))
      | _ \<Rightarrow> None)"

fun cons_fst :: "char \<Rightarrow> (string \<times> string) option \<Rightarrow> (string \<times> string) option" where
  "cons_fst c None = None"
| "cons_fst c (Some (s, r)) = Some (c # s, r)"

fun parse_chars :: "string \<Rightarrow> (string \<times> string) option" where
  "parse_chars [] = None"
| "parse_chars (c # cs) =
     (if c = CHR 0x22 then Some ([], cs)
      else if c = CHR 0x5C then
        (case cs of
           [] \<Rightarrow> None
         | e # cs' \<Rightarrow>
             (if e = CHR ''u'' then
                (case cs' of
                   a # b # c' # d # cs'' \<Rightarrow>
                     (case unicode_escape a b c' d of
                        None \<Rightarrow> None
                      | Some ch \<Rightarrow> cons_fst ch (parse_chars cs''))
                 | _ \<Rightarrow> None)
              else
                (case unescape e of
                   None \<Rightarrow> None
                 | Some ch \<Rightarrow> cons_fst ch (parse_chars cs'))))
      else if (of_char c :: nat) < 32 then None
      else cons_fst c (parse_chars cs))"

fun digits_val :: "nat \<Rightarrow> string \<Rightarrow> nat" where
  "digits_val acc [] = acc"
| "digits_val acc (c # cs) = digits_val (10 * acc + (of_char c - 48)) cs"

definition parse_nat :: "string \<Rightarrow> (nat \<times> string) option" where
  "parse_nat cs =
     (let ds = takeWhile is_digit cs; r = dropWhile is_digit cs in
      if ds = [] then None
      else if hd ds = CHR ''0'' \<and> tl ds \<noteq> [] then None
      else if r \<noteq> [] \<and> (hd r = CHR ''.'' \<or> hd r = CHR ''e'' \<or> hd r = CHR ''E'') then None
      else Some (digits_val 0 ds, r))"

definition parse_number :: "string \<Rightarrow> (json \<times> string) option" where
  "parse_number cs =
     (case cs of
        [] \<Rightarrow> None
      | c # r \<Rightarrow>
          (if c = CHR ''-'' then
             (case parse_nat r of None \<Rightarrow> None | Some (n, r') \<Rightarrow> Some (JNum (- int n), r'))
           else
             (case parse_nat cs of None \<Rightarrow> None | Some (n, r') \<Rightarrow> Some (JNum (int n), r'))))"

definition strip_prefix :: "string \<Rightarrow> string \<Rightarrow> string option" where
  "strip_prefix p cs = (if take (length p) cs = p then Some (drop (length p) cs) else None)"

definition parse_literal :: "string \<Rightarrow> (json \<times> string) option" where
  "parse_literal cs =
     (case strip_prefix ''null'' cs of
        Some r \<Rightarrow> Some (JNull, r)
      | None \<Rightarrow>
          (case strip_prefix ''true'' cs of
             Some r \<Rightarrow> Some (JBool True, r)
           | None \<Rightarrow>
               (case strip_prefix ''false'' cs of
                  Some r \<Rightarrow> Some (JBool False, r)
                | None \<Rightarrow> parse_number cs)))"

fun parse_value :: "nat \<Rightarrow> string \<Rightarrow> (json \<times> string) option"
  and parse_elements :: "nat \<Rightarrow> json list \<Rightarrow> string \<Rightarrow> (json \<times> string) option"
  and parse_members :: "nat \<Rightarrow> (string \<times> json) list \<Rightarrow> string \<Rightarrow> (json \<times> string) option"
  where
  "parse_value 0 cs = None"
| "parse_value (Suc n) cs =
     (case skip_ws cs of
        [] \<Rightarrow> None
      | c # r \<Rightarrow>
          (if c = CHR ''{'' then
             (case skip_ws r of
                [] \<Rightarrow> None
              | d # r' \<Rightarrow> if d = CHR ''}'' then Some (JObj [], r') else parse_members n [] (d # r'))
           else if c = CHR ''['' then
             (case skip_ws r of
                [] \<Rightarrow> None
              | d # r' \<Rightarrow> if d = CHR '']'' then Some (JArr [], r') else parse_elements n [] (d # r'))
           else if c = CHR 0x22 then
             (case parse_chars r of None \<Rightarrow> None | Some (s, r') \<Rightarrow> Some (JStr s, r'))
           else parse_literal (c # r)))"
| "parse_elements 0 acc cs = None"
| "parse_elements (Suc n) acc cs =
     (case parse_value n cs of
        None \<Rightarrow> None
      | Some (v, r) \<Rightarrow>
          (case skip_ws r of
             [] \<Rightarrow> None
           | d # r' \<Rightarrow>
               if d = CHR '','' then parse_elements n (acc @ [v]) r'
               else if d = CHR '']'' then Some (JArr (acc @ [v]), r')
               else None))"
| "parse_members 0 acc cs = None"
| "parse_members (Suc n) acc cs =
     (case skip_ws cs of
        [] \<Rightarrow> None
      | q # r0 \<Rightarrow>
          if q \<noteq> CHR 0x22 then None
          else
            (case parse_chars r0 of
               None \<Rightarrow> None
             | Some (k, r1) \<Rightarrow>
                 (case skip_ws r1 of
                    [] \<Rightarrow> None
                  | colon # r2 \<Rightarrow>
                      if colon \<noteq> CHR '':'' then None
                      else
                        (case parse_value n r2 of
                           None \<Rightarrow> None
                         | Some (v, r3) \<Rightarrow>
                             (case skip_ws r3 of
                                [] \<Rightarrow> None
                              | d # r4 \<Rightarrow>
                                  if d = CHR '','' then parse_members n (AList.update k v acc) r4
                                  else if d = CHR ''}'' then Some (JObj (AList.update k v acc), r4)
                                  else None)))))"

definition JSON_parse :: "string \<Rightarrow> json option" where
  "JSON_parse cs =
     (case parse_value (2 * length cs + 2) cs of
        None \<Rightarrow> None
      | Some (v, r) \<Rightarrow> if skip_ws r = [] then Some v else None)"

subsection \<open>Property access, \<^verbatim>\<open>Object.keys\<close>, truthiness and \<^verbatim>\<open>String(...)\<close>\<close>

text \<open>
  \<open>get_prop thing k\<close> is \<^verbatim>\<open>thing[k]\<close> for an own property of a parsed value: only objects
  have the properties the synchroniser reads. A list that binds a key twice denotes the object
  with the first binding, so \<open>Object_keys\<close> counts each key once.
\<close>

fun get_prop :: "json \<Rightarrow> string \<Rightarrow> json option" where
  "get_prop (JObj kvs) k = map_of kvs k"
| "get_prop _ k = None"

fun Object_keys :: "json \<Rightarrow> string list" where
  "Object_keys (JObj kvs) = remdups (map fst kvs)"
| "Object_keys (JArr xs) = map show_nat [0..<length xs]"
| "Object_keys (JStr s) = map show_nat [0..<length s]"
| "Object_keys _ = []"

fun truthy :: "json \<Rightarrow> bool" where
  "truthy JNull = False"
| "truthy (JBool b) = b"
| "truthy (JNum n) = (n \<noteq> 0)"
| "truthy (JStr s) = (s \<noteq> [])"
| "truthy _ = True"

fun is_number :: "json option \<Rightarrow> bool" where
  "is_number (Some (JNum n)) = True"
| "is_number _ = False"

fun is_string :: "json option \<Rightarrow> bool" where
  "is_string (Some (JStr s)) = True"
| "is_string _ = False"

fun js_String :: "json \<Rightarrow> string"
  and js_String_elements :: "json list \<Rightarrow> string list" where
  "js_String JNull = ''null''"
| "js_String (JBool b) = (if b then ''true'' else ''false'')"
| "js_String (JNum n) = show_int n"
| "js_String (JStr s) = s"
| "js_String (JArr xs) = join '','' (js_String_elements xs)"
| "js_String (JObj kvs) = ''[object Object]''"
| "js_String_elements [] = []"
| "js_String_elements (x # xs) = (if x = JNull then [] else js_String x) # js_String_elements xs"

section \<open>The data model of the synchroniser\<close>

datatype SyncStatus = Idle | Syncing | HasConflicts

text \<open>
  The error codes are declared outside the three source files; the synchroniser names
  \<open>PreconditionFailed\<close>, \<open>LocalPreconditionFailed\<close> and \<open>Incompatible\<close>, every other code is
  \<open>OtherCode\<close>. An \<open>error\<close> is what a \<^verbatim>\<open>throw\<close> or a rejected promise carries.
\<close>

datatype UserDataSyncErrorCode =
    PreconditionFailed
  | LocalPreconditionFailed
  | Incompatible
  | OtherCode string

datatype FileOperationResult = FILE_NOT_FOUND | FILE_MODIFIED_SINCE | FILE_OTHER_ERROR

datatype error =
    UserDataSyncError UserDataSyncErrorCode
  | FileOperationError FileOperationResult
  | TypeError
  | Error string

type_synonym IHeaders = "(string \<times> string) list"

record URI =
  scheme :: string
  authority :: string
  path :: string

record Conflict =
  local :: URI
  remote :: URI

record HasRef =
  ref :: string

text \<open>\<^verbatim>\<open>IUserData\<close>: what the store returns, \<open>content\<close> is the envelope's JSON text or null.\<close>

record IUserData = HasRef +
  content :: "string option"

text \<open>
  \<^verbatim>\<open>IRemoteUserData\<close>: \<open>syncData\<close> is the parsed envelope (a value accepted by \<open>isSyncData\<close>) or
  null. An object read back from the last-sync file carries the file's other keys as well
  (\<^verbatim>\<open>T extends IRemoteUserData\<close>); they are the \<open>additionalProps\<close>, empty for an object the
  synchroniser builds from a store response.
\<close>

record IRemoteUserData = HasRef +
  syncData :: "json option"
  additionalProps :: "(string \<times> json) list"

record ISyncPreview =
  remoteUserData :: IRemoteUserData
  lastSyncUserData :: "IRemoteUserData option"
  hasLocalChanged :: bool
  hasRemoteChanged :: bool
  hasConflicts :: bool
  isLastSyncFromCurrentMachine :: bool

record IUserDataManifest =
  latest :: "(string \<times> string) list option"
  session :: string

text \<open>
  What the synchroniser makes observable: the events of its three emitters, its telemetry
  pings, and the cancellation of a preview promise. Log lines are not modelled.
\<close>

datatype event =
    DidChangeStatus SyncStatus
  | DidChangeConflicts "Conflict list"
  | DidChangeLocal
  | Telemetry string
  | PreviewCancelled

text \<open>
  The mutable fields of an \<^verbatim>\<open>AbstractSynchroniser\<close>, and the \<open>world\<close> of its collaborators
  (files, remote store, backup store, enablement). An \<^verbatim>\<open>await\<close> is modelled by its outcome:
  a promise is the value it settles to, \<open>Inl\<close> for a rejection. Operations run one at a
  time: no other operation changes the fields while one is suspended. The type variable
  \<open>'z\<close> is the extension a strategy adds to \<^verbatim>\<open>ISyncPreview\<close>.
\<close>

record ('w, 'z) state =
  syncPreviewPromise :: "(error + 'z ISyncPreview_scheme) option"
  status :: SyncStatus
  conflicts :: "Conflict list"
  syncHeaders :: IHeaders
  emitted :: "event list"
  world :: 'w

text \<open>
  The immutable part of an instance and the services injected into its constructor. Each
  service call takes the world and returns its outcome with the new world. \<open>basename\<close> and
  \<open>isEqual\<close> are the URI helpers of \<^verbatim>\<open>vs/base/common/resources\<close>.
\<close>

record 'w synchroniser =
  resource :: string
  version :: int
  lastSyncResource :: URI
  currentMachineId :: string
  isResourceEnabled :: "string \<Rightarrow> 'w \<Rightarrow> bool"
  readFile :: "URI \<Rightarrow> 'w \<Rightarrow> (error + string) \<times> 'w"
  writeFile :: "URI \<Rightarrow> string \<Rightarrow> 'w \<Rightarrow> (error + unit) \<times> 'w"
  del :: "URI \<Rightarrow> 'w \<Rightarrow> (error + unit) \<times> 'w"
  storeRead :: "string \<Rightarrow> IUserData option \<Rightarrow> IHeaders \<Rightarrow> 'w \<Rightarrow> (error + IUserData) \<times> 'w"
  storeWrite :: "string \<Rightarrow> string \<Rightarrow> string option \<Rightarrow> IHeaders \<Rightarrow> 'w \<Rightarrow> (error + string) \<times> 'w"
  storeResolveContent :: "string \<Rightarrow> string \<Rightarrow> 'w \<Rightarrow> (error + string option) \<times> 'w"
  backupStoreBackup :: "string \<Rightarrow> string \<Rightarrow> 'w \<Rightarrow> (error + unit) \<times> 'w"
  backupStoreResolveContent :: "string \<Rightarrow> string \<Rightarrow> 'w \<Rightarrow> (error + string option) \<times> 'w"
  basename :: "URI \<Rightarrow> string"
  isEqual :: "URI \<Rightarrow> URI \<Rightarrow> bool"

text \<open>
  The abstract methods a concrete synchroniser supplies. A hook reads the instance and acts on
  the world; it returns the value its promise settles to. \<open>onStop\<close> is what an overriding
  \<^verbatim>\<open>stop()\<close> does after \<^verbatim>\<open>await super.stop()\<close>: nothing in \<^verbatim>\<open>AbstractSynchroniser\<close>, the
  deletion of the preview file in \<^verbatim>\<open>AbstractFileSynchroniser\<close>.
\<close>

record ('w, 'z) strategy =
  generatePullPreview ::
    "IRemoteUserData \<Rightarrow> IRemoteUserData option \<Rightarrow> ('w, 'z) state \<Rightarrow> (error + 'z ISyncPreview_scheme) \<times> 'w"
  generatePushPreview ::
    "IRemoteUserData \<Rightarrow> IRemoteUserData option \<Rightarrow> ('w, 'z) state \<Rightarrow> (error + 'z ISyncPreview_scheme) \<times> 'w"
  generateReplacePreview ::
    "json \<Rightarrow> IRemoteUserData \<Rightarrow> IRemoteUserData option \<Rightarrow> ('w, 'z) state \<Rightarrow> (error + 'z ISyncPreview_scheme) \<times> 'w"
  generatePreview ::
    "IRemoteUserData \<Rightarrow> IRemoteUserData option \<Rightarrow> ('w, 'z) state \<Rightarrow> (error + 'z ISyncPreview_scheme) \<times> 'w"
  updatePreviewWithConflict ::
    "'z ISyncPreview_scheme \<Rightarrow> URI \<Rightarrow> string \<Rightarrow> ('w, 'z) state \<Rightarrow> (error + 'z ISyncPreview_scheme) \<times> 'w"
  applyPreview ::
    "'z ISyncPreview_scheme \<Rightarrow> bool \<Rightarrow> ('w, 'z) state \<Rightarrow> (error + unit) \<times> 'w"
  onStop :: "('w, 'z) state \<Rightarrow> 'w"

text \<open>Running a service call or a hook inside the instance: the world is replaced.\<close>

definition call :: "(('w, 'z) state \<Rightarrow> 'a \<times> 'w) \<Rightarrow> ('w, 'z) state \<Rightarrow> 'a \<times> ('w, 'z) state" where
  "call h s = (case h s of (r, w) \<Rightarrow> (r, s\<lparr>world := w\<rparr>))"

definition io :: "('w \<Rightarrow> 'a \<times> 'w) \<Rightarrow> ('w, 'z) state \<Rightarrow> 'a \<times> ('w, 'z) state" where
  "io f s = (case f (world s) of (r, w) \<Rightarrow> (r, s\<lparr>world := w\<rparr>))"

section \<open>The synchroniser, method by method\<close>

subsection \<open>\<^verbatim>\<open>isSyncData\<close> and \<^verbatim>\<open>parseSyncData\<close>\<close>

definition isSyncData :: "json \<Rightarrow> bool" where
  "isSyncData thing =
     (if truthy thing
         \<and> (get_prop thing ''version'' \<noteq> None \<and> is_number (get_prop thing ''version''))
         \<and> (get_prop thing ''content'' \<noteq> None \<and> is_string (get_prop thing ''content''))
      then
        (if length (Object_keys thing) = 2 then True
         else if length (Object_keys thing) = 3
                 \<and> (get_prop thing ''machineId'' \<noteq> None \<and> is_string (get_prop thing ''machineId''))
           then True
         else False)
      else False)"

text \<open>
  \<^verbatim>\<open>parseSyncData\<close> returns the parsed envelope or throws \<open>Incompatible\<close>; a syntax error of
  \<^verbatim>\<open>JSON.parse\<close> is caught (and logged) and ends in the same throw.
\<close>

definition parseSyncData :: "string \<Rightarrow> error + json" where
  "parseSyncData text =
     (case JSON_parse text of
        None \<Rightarrow> Inl (UserDataSyncError Incompatible)
      | Some thing \<Rightarrow>
          if isSyncData thing then Inr thing else Inl (UserDataSyncError Incompatible))"

subsection \<open>Status and conflicts\<close>

definition isEnabled :: "'w synchroniser \<Rightarrow> ('w, 'z) state \<Rightarrow> bool" where
  "isEnabled svc s = isResourceEnabled svc (resource svc) (world s)"

definition setConflicts :: "'w synchroniser \<Rightarrow> Conflict list \<Rightarrow> ('w, 'z) state \<Rightarrow> ('w, 'z) state" where
  "setConflicts svc cs s =
     (if \<not> list_all2 (\<lambda>a b. isEqual svc (local a) (local b) \<and> isEqual svc (remote a) (remote b))
            (conflicts s) cs
      then s\<lparr>conflicts := cs, emitted := emitted s @ [DidChangeConflicts cs]\<rparr>
      else s)"

definition setStatus :: "'w synchroniser \<Rightarrow> SyncStatus \<Rightarrow> ('w, 'z) state \<Rightarrow> ('w, 'z) state" where
  "setStatus svc st s =
     (if status s \<noteq> st then
        (let oldStatus = status s;
             s1 = s\<lparr>status := st, emitted := emitted s @ [DidChangeStatus st]\<rparr>;
             s2 = (if st = HasConflicts
                   then s1\<lparr>emitted := emitted s1 @ [Telemetry ''sync/conflictsDetected'']\<rparr> else s1);
             s3 = (if oldStatus = HasConflicts \<and> st = Idle
                   then s2\<lparr>emitted := emitted s2 @ [Telemetry ''sync/conflictsResolved'']\<rparr> else s2)
         in if status s3 \<noteq> HasConflicts then setConflicts svc [] s3 else s3)
      else s)"

subsection \<open>\<^verbatim>\<open>stop\<close>\<close>

text \<open>
  \<open>AbstractSynchroniser_stop\<close> is the method of the base class; it has no \<^verbatim>\<open>await\<close>, so it
  runs to its end when it is called. \<open>stop\<close> is the method as dispatched on an instance:
  the base method, then what the overriding method adds.
\<close>

definition AbstractSynchroniser_stop :: "'w synchroniser \<Rightarrow> ('w, 'z) state \<Rightarrow> ('w, 'z) state" where
  "AbstractSynchroniser_stop svc s =
     setStatus svc Idle
       (case syncPreviewPromise s of
          Some p \<Rightarrow> s\<lparr>syncPreviewPromise := None, emitted := emitted s @ [PreviewCancelled]\<rparr>
        | None \<Rightarrow> s)"

definition stop :: "'w synchroniser \<Rightarrow> ('w, 'z) strategy \<Rightarrow> ('w, 'z) state \<Rightarrow> ('w, 'z) state" where
  "stop svc strat s =
     (let s1 = AbstractSynchroniser_stop svc s in s1\<lparr>world := onStop strat s1\<rparr>)"

subsection \<open>The last-sync record\<close>

text \<open>
  \<^verbatim>\<open>getLastSyncUserData\<close> never throws: every error of its body is caught and the result is
  null. \<open>lastSyncFromText\<close> is the body after \<^verbatim>\<open>readFile\<close>. A parsed value that is not an
  object has no \<^verbatim>\<open>content\<close> (or is null, a \<^verbatim>\<open>TypeError\<close>), and \<^verbatim>\<open>JSON.parse(undefined)\<close> is a
  syntax error; a \<^verbatim>\<open>content\<close> that is not a string is converted by \<^verbatim>\<open>JSON.parse\<close> with
  \<^verbatim>\<open>String(...)\<close>. The declared type makes \<^verbatim>\<open>ref\<close> a string; a file whose \<^verbatim>\<open>ref\<close> is not one
  is outside the typed model and is read as no record.
\<close>

definition spreadRest :: "(string \<times> json) list \<Rightarrow> (string \<times> json) list" where
  "spreadRest kvs =
     filter (\<lambda>kv. fst kv \<noteq> ''ref'' \<and> fst kv \<noteq> ''content'' \<and> fst kv \<noteq> ''syncData'')
       (AList.clearjunk kvs)"

definition lastSyncFromText :: "string \<Rightarrow> IRemoteUserData option" where
  "lastSyncFromText text =
     (case JSON_parse text of
        None \<Rightarrow> None
      | Some parsed \<Rightarrow>
          (case parsed of
             JObj kvs \<Rightarrow>
               (case map_of kvs ''ref'' of
                  Some (JStr r) \<Rightarrow>
                    (case map_of kvs ''content'' of
                       None \<Rightarrow> None
                     | Some JNull \<Rightarrow> Some \<lparr>ref = r, syncData = None, additionalProps = []\<rparr>
                     | Some c \<Rightarrow>
                         (case JSON_parse (js_String c) of
                            None \<Rightarrow> None
                          | Some sd \<Rightarrow>
                              if isSyncData sd
                              then Some \<lparr>ref = r, syncData = Some sd, additionalProps = spreadRest kvs\<rparr>
                              else None))
                | _ \<Rightarrow> None)
           | _ \<Rightarrow> None))"

definition getLastSyncUserData ::
  "'w synchroniser \<Rightarrow> ('w, 'z) state \<Rightarrow> IRemoteUserData option \<times> ('w, 'z) state" where
  "getLastSyncUserData svc s =
     (case io (readFile svc (lastSyncResource svc)) s of
        (Inl e, s1) \<Rightarrow> (None, s1)
      | (Inr text, s1) \<Rightarrow> (lastSyncFromText text, s1))"

text \<open>
  \<^verbatim>\<open>{ ref, content, ...additionalProps }\<close>: a key of \<open>additionalProps\<close> that is \<^verbatim>\<open>ref\<close> or
  \<^verbatim>\<open>content\<close> replaces the value written before it.
\<close>

definition lastSyncObject :: "IRemoteUserData \<Rightarrow> (string \<times> json) list \<Rightarrow> json" where
  "lastSyncObject lastSyncRemoteUserData props =
     JObj (AList.updates (map fst props) (map snd props)
       [(''ref'', JStr (ref lastSyncRemoteUserData)),
        (''content'',
           (case syncData lastSyncRemoteUserData of
              Some sd \<Rightarrow> JStr (JSON_stringify sd)
            | None \<Rightarrow> JNull))])"

definition updateLastSyncUserData ::
  "'w synchroniser \<Rightarrow> IRemoteUserData \<Rightarrow> (string \<times> json) list \<Rightarrow> ('w, 'z) state
     \<Rightarrow> (error + unit) \<times> ('w, 'z) state" where
  "updateLastSyncUserData svc lastSyncRemoteUserData props s =
     io (writeFile svc (lastSyncResource svc)
           (JSON_stringify (lastSyncObject lastSyncRemoteUserData props))) s"

subsection \<open>Remote user data\<close>

text \<open>\<^verbatim>\<open>getUserData\<close> takes a ref (\<open>Inl\<close>) or the last-sync data or null (\<open>Inr\<close>).\<close>

definition getUserData ::
  "'w synchroniser \<Rightarrow> string + IRemoteUserData option \<Rightarrow> ('w, 'z) state
     \<Rightarrow> (error + IUserData) \<times> ('w, 'z) state" where
  "getUserData svc refOrLastSyncData s =
     (case refOrLastSyncData of
        Inl r \<Rightarrow>
          (case io (storeResolveContent svc (resource svc) r) s of
             (Inl e, s1) \<Rightarrow> (Inl e, s1)
           | (Inr c, s1) \<Rightarrow> (Inr \<lparr>ref = r, content = c\<rparr>, s1))
      | Inr lastSyncData \<Rightarrow>
          io (storeRead svc (resource svc)
                (case lastSyncData of
                   Some d \<Rightarrow>
                     Some \<lparr>ref = ref d,
                           content = (case syncData d of
                                        Some sd \<Rightarrow> Some (JSON_stringify sd)
                                      | None \<Rightarrow> None)\<rparr>
                 | None \<Rightarrow> None)
                (syncHeaders s)) s)"

definition getRemoteUserData ::
  "'w synchroniser \<Rightarrow> IRemoteUserData option \<Rightarrow> ('w, 'z) state
     \<Rightarrow> (error + IRemoteUserData) \<times> ('w, 'z) state" where
  "getRemoteUserData svc lastSyncData s =
     (case getUserData svc (Inr lastSyncData) s of
        (Inl e, s1) \<Rightarrow> (Inl e, s1)
      | (Inr d, s1) \<Rightarrow>
          (case content d of
             None \<Rightarrow> (Inr \<lparr>ref = ref d, syncData = None, additionalProps = []\<rparr>, s1)
           | Some text \<Rightarrow>
               (case parseSyncData text of
                  Inl e \<Rightarrow> (Inl e, s1)
                | Inr sd \<Rightarrow> (Inr \<lparr>ref = ref d, syncData = Some sd, additionalProps = []\<rparr>, s1))))"

definition updateRemoteUserData ::
  "'w synchroniser \<Rightarrow> string \<Rightarrow> string option \<Rightarrow> ('w, 'z) state
     \<Rightarrow> (error + IRemoteUserData) \<times> ('w, 'z) state" where
  "updateRemoteUserData svc text r s =
     (let machineId = currentMachineId svc;
          sd = JObj [(''version'', JNum (version svc)), (''machineId'', JStr machineId),
                     (''content'', JStr text)]
      in case io (storeWrite svc (resource svc) (JSON_stringify sd) r (syncHeaders s)) s of
           (Inl e, s1) \<Rightarrow> (Inl e, s1)
         | (Inr r', s1) \<Rightarrow> (Inr \<lparr>ref = r', syncData = Some sd, additionalProps = []\<rparr>, s1))"

definition backupLocal ::
  "'w synchroniser \<Rightarrow> string \<Rightarrow> ('w, 'z) state \<Rightarrow> (error + unit) \<times> ('w, 'z) state" where
  "backupLocal svc text s =
     (let sd = JObj [(''version'', JNum (version svc)), (''content'', JStr text)]
      in io (backupStoreBackup svc (resource svc) (JSON_stringify sd)) s)"

definition latestRefOf :: "'w synchroniser \<Rightarrow> IUserDataManifest option \<Rightarrow> string option" where
  "latestRefOf svc manifest =
     (case manifest of
        None \<Rightarrow> None
      | Some m \<Rightarrow> (case latest m of None \<Rightarrow> None | Some tbl \<Rightarrow> map_of tbl (resource svc)))"

definition getLatestRemoteUserData ::
  "'w synchroniser \<Rightarrow> IUserDataManifest option \<Rightarrow> IRemoteUserData option \<Rightarrow> ('w, 'z) state
     \<Rightarrow> (error + IRemoteUserData) \<times> ('w, 'z) state" where
  "getLatestRemoteUserData svc manifest lastSyncData s =
     (case lastSyncData of
        Some d \<Rightarrow>
          (let latestRef = latestRefOf svc manifest in
           if Some (ref d) = latestRef then (Inr d, s)
           else if latestRef = None \<and> syncData d = None then (Inr d, s)
           else getRemoteUserData svc lastSyncData s)
      | None \<Rightarrow> getRemoteUserData svc lastSyncData s)"

subsection \<open>\<^verbatim>\<open>doSync\<close> and \<^verbatim>\<open>performSync\<close>\<close>

text \<open>
  \<^verbatim>\<open>createCancelablePromise\<close> calls \<^verbatim>\<open>generatePreview\<close> at once; the field then holds the
  promise, here the outcome the promise settles to.
\<close>

definition doSync ::
  "'w synchroniser \<Rightarrow> ('w, 'z) strategy \<Rightarrow> IRemoteUserData \<Rightarrow> IRemoteUserData option
     \<Rightarrow> ('w, 'z) state \<Rightarrow> (error + SyncStatus) \<times> ('w, 'z) state" where
  "doSync svc strat remoteData lastSyncData s =
     (case (case syncPreviewPromise s of
              None \<Rightarrow>
                (case call (generatePreview strat remoteData lastSyncData) s of
                   (p, s') \<Rightarrow> (p, s'\<lparr>syncPreviewPromise := Some p\<rparr>))
            | Some p \<Rightarrow> (p, s)) of
        (Inl e, s1) \<Rightarrow> (Inl e, s1\<lparr>syncPreviewPromise := None\<rparr>)
      | (Inr preview, s1) \<Rightarrow>
          if hasConflicts preview then (Inr HasConflicts, s1)
          else
            (case call (applyPreview strat preview False) s1 of
               (Inl e, s2) \<Rightarrow> (Inl e, s2\<lparr>syncPreviewPromise := None\<rparr>)
             | (Inr u, s2) \<Rightarrow> (Inr Idle, s2\<lparr>syncPreviewPromise := None\<rparr>)))"

definition isIncompatible :: "'w synchroniser \<Rightarrow> IRemoteUserData \<Rightarrow> bool" where
  "isIncompatible svc remoteData =
     (case syncData remoteData of
        None \<Rightarrow> False
      | Some sd \<Rightarrow>
          (case get_prop sd ''version'' of
             Some (JNum v) \<Rightarrow> v > version svc
           | _ \<Rightarrow> False))"

text \<open>
  The retry of \<^verbatim>\<open>performSync\<close> is a recursive call with no bound: a run that never returns
  is \<open>None\<close>.
\<close>

partial_function (option) performSync ::
  "'w synchroniser \<Rightarrow> ('w, 'z) strategy \<Rightarrow> IRemoteUserData \<Rightarrow> IRemoteUserData option
     \<Rightarrow> ('w, 'z) state \<Rightarrow> ((error + SyncStatus) \<times> ('w, 'z) state) option" where
  "performSync svc strat remoteData lastSyncData s =
     (if isIncompatible svc remoteData
      then Some (Inl (UserDataSyncError Incompatible),
                 s\<lparr>emitted := emitted s @ [Telemetry ''sync/incompatible'']\<rparr>)
      else
        (case doSync svc strat remoteData lastSyncData s of
           (Inr st, s1) \<Rightarrow> Some (Inr st, s1)
         | (Inl e, s1) \<Rightarrow>
             (case e of
                UserDataSyncError code \<Rightarrow>
                  (case code of
                     LocalPreconditionFailed \<Rightarrow> performSync svc strat remoteData lastSyncData s1
                   | PreconditionFailed \<Rightarrow>
                       (case getRemoteUserData svc None s1 of
                          (Inl e2, s2) \<Rightarrow> Some (Inl e2, s2)
                        | (Inr remoteData', s2) \<Rightarrow>
                            (case getLastSyncUserData svc s2 of
                               (lastSyncData', s3) \<Rightarrow>
                                 performSync svc strat remoteData' lastSyncData' s3))
                   | _ \<Rightarrow> Some (Inl e, s1))
              | _ \<Rightarrow> Some (Inl e, s1))))"

declare performSync.simps [code]

subsection \<open>The public operations\<close>

definition pull ::
  "'w synchroniser \<Rightarrow> ('w, 'z) strategy \<Rightarrow> ('w, 'z) state \<Rightarrow> (error + unit) \<times> ('w, 'z) state" where
  "pull svc strat s =
     (if \<not> isEnabled svc s then (Inr (), s)
      else
        (let s1 = stop svc strat s;
             s2 = setStatus svc Syncing s1
         in case getLastSyncUserData svc s2 of
              (lastSyncData, s3) \<Rightarrow>
                (case getRemoteUserData svc lastSyncData s3 of
                   (Inl e, s4) \<Rightarrow> (Inl e, setStatus svc Idle s4)
                 | (Inr remoteData, s4) \<Rightarrow>
                     (case call (generatePullPreview strat remoteData lastSyncData) s4 of
                        (Inl e, s5) \<Rightarrow> (Inl e, setStatus svc Idle s5)
                      | (Inr preview, s5) \<Rightarrow>
                          (case call (applyPreview strat preview False) s5 of
                             (Inl e, s6) \<Rightarrow> (Inl e, setStatus svc Idle s6)
                           | (Inr u, s6) \<Rightarrow> (Inr (), setStatus svc Idle s6))))))"

text \<open>
  \<^verbatim>\<open>push\<close> calls \<^verbatim>\<open>this.stop()\<close> and does not await it. The call runs \<^verbatim>\<open>stop\<close> up to its
  first \<^verbatim>\<open>await\<close>, which is the whole of the base method; what an overriding method does
  after \<^verbatim>\<open>await super.stop()\<close> is resumed only when \<^verbatim>\<open>push\<close> itself suspends, at its first
  \<^verbatim>\<open>await\<close>, after it has set the status to \<open>Syncing\<close>.
\<close>

definition push ::
  "'w synchroniser \<Rightarrow> ('w, 'z) strategy \<Rightarrow> ('w, 'z) state \<Rightarrow> (error + unit) \<times> ('w, 'z) state" where
  "push svc strat s =
     (if \<not> isEnabled svc s then (Inr (), s)
      else
        (let s1 = AbstractSynchroniser_stop svc s;
             s2 = setStatus svc Syncing s1;
             s2' = s2\<lparr>world := onStop strat s2\<rparr>
         in case getLastSyncUserData svc s2' of
              (lastSyncData, s3) \<Rightarrow>
                (case getRemoteUserData svc lastSyncData s3 of
                   (Inl e, s4) \<Rightarrow> (Inl e, setStatus svc Idle s4)
                 | (Inr remoteData, s4) \<Rightarrow>
                     (case call (generatePushPreview strat remoteData lastSyncData) s4 of
                        (Inl e, s5) \<Rightarrow> (Inl e, setStatus svc Idle s5)
                      | (Inr preview, s5) \<Rightarrow>
                          (case call (applyPreview strat preview True) s5 of
                             (Inl e, s6) \<Rightarrow> (Inl e, setStatus svc Idle s6)
                           | (Inr u, s6) \<Rightarrow> (Inr (), setStatus svc Idle s6))))))"

text \<open>
  \<^verbatim>\<open>sync\<close>: the outer \<^verbatim>\<open>finally\<close> clears the headers on every path; the inner one sets the
  status that \<^verbatim>\<open>performSync\<close> returned, \<open>Idle\<close> when it threw.
\<close>

definition sync ::
  "'w synchroniser \<Rightarrow> ('w, 'z) strategy \<Rightarrow> IUserDataManifest option \<Rightarrow> IHeaders
     \<Rightarrow> ('w, 'z) state \<Rightarrow> ((error + unit) \<times> ('w, 'z) state) option" where
  "sync svc strat manifest headers s =
     (let s0 = s\<lparr>syncHeaders := headers\<rparr> in
      case
        (if \<not> isEnabled svc s0
         then Some (Inr (), if status s0 \<noteq> Idle then stop svc strat s0 else s0)
         else if status s0 = HasConflicts then Some (Inr (), s0)
         else if status s0 = Syncing then Some (Inr (), s0)
         else
           (let s1 = setStatus svc Syncing s0 in
            case getLastSyncUserData svc s1 of
              (lastSyncData, s2) \<Rightarrow>
                (case getLatestRemoteUserData svc manifest lastSyncData s2 of
                   (Inl e, s3) \<Rightarrow> Some (Inl e, s3)
                 | (Inr remoteData, s3) \<Rightarrow>
                     (case performSync svc strat remoteData lastSyncData s3 of
                        None \<Rightarrow> None
                      | Some (Inl e, s4) \<Rightarrow> Some (Inl e, setStatus svc Idle s4)
                      | Some (Inr st, s4) \<Rightarrow> Some (Inr (), setStatus svc st s4)))))
      of
        None \<Rightarrow> None
      | Some (r, s') \<Rightarrow> Some (r, s'\<lparr>syncHeaders := []\<rparr>))"

text \<open>
  Modelled from the spec: the constant \<^verbatim>\<open>USER_DATA_SYNC_SCHEME\<close> is imported from
  \<^verbatim>\<open>userDataSync.ts\<close>, which is not among the source files; the specification gives the
  scheme of a handle as \<^verbatim>\<open>user-data-sync\<close>.
\<close>

definition USER_DATA_SYNC_SCHEME :: string where
  "USER_DATA_SYNC_SCHEME = ''user-data-sync''"

definition toRemoteBackupResource :: "'w synchroniser \<Rightarrow> string \<Rightarrow> URI" where
  "toRemoteBackupResource svc r =
     \<lparr>scheme = USER_DATA_SYNC_SCHEME, authority = ''remote-backup'',
      path = ''/'' @ resource svc @ ''/'' @ r\<rparr>"

definition toLocalBackupResource :: "'w synchroniser \<Rightarrow> string \<Rightarrow> URI" where
  "toLocalBackupResource svc r =
     \<lparr>scheme = USER_DATA_SYNC_SCHEME, authority = ''local-backup'',
      path = ''/'' @ resource svc @ ''/'' @ r\<rparr>"

definition resolveContent ::
  "'w synchroniser \<Rightarrow> URI \<Rightarrow> ('w, 'z) state \<Rightarrow> (error + string option) \<times> ('w, 'z) state" where
  "resolveContent svc uri s =
     (let r = basename svc uri in
      if isEqual svc uri (toRemoteBackupResource svc r) then
        (case getUserData svc (Inl r) s of
           (Inl e, s1) \<Rightarrow> (Inl e, s1)
         | (Inr d, s1) \<Rightarrow> (Inr (content d), s1))
      else if isEqual svc uri (toLocalBackupResource svc r) then
        io (backupStoreResolveContent svc (resource svc) r) s
      else (Inr None, s))"

text \<open>
  \<^verbatim>\<open>replace\<close>: \<^verbatim>\<open>!content\<close> holds for null and for the empty string. \<^verbatim>\<open>parseSyncData\<close> throws
  when the text is no envelope, and the throw leaves \<^verbatim>\<open>replace\<close>; the test \<^verbatim>\<open>!syncData\<close> that
  follows is on a value that \<open>isSyncData\<close> accepted.
\<close>

definition replace ::
  "'w synchroniser \<Rightarrow> ('w, 'z) strategy \<Rightarrow> URI \<Rightarrow> ('w, 'z) state
     \<Rightarrow> (error + bool) \<times> ('w, 'z) state" where
  "replace svc strat uri s =
     (case resolveContent svc uri s of
        (Inl e, s0) \<Rightarrow> (Inl e, s0)
      | (Inr c, s0) \<Rightarrow>
          (case c of
             None \<Rightarrow> (Inr False, s0)
           | Some text \<Rightarrow>
               if text = [] then (Inr False, s0)
               else
                 (case parseSyncData text of
                    Inl e \<Rightarrow> (Inl e, s0)
                  | Inr sd \<Rightarrow>
                      if \<not> truthy sd then (Inr False, s0)
                      else
                        (let s1 = stop svc strat s0;
                             s2 = setStatus svc Syncing s1
                         in case getLastSyncUserData svc s2 of
                              (lastSyncData, s3) \<Rightarrow>
                                (case getLatestRemoteUserData svc None lastSyncData s3 of
                                   (Inl e, s4) \<Rightarrow> (Inl e, setStatus svc Idle s4)
                                 | (Inr remoteData, s4) \<Rightarrow>
                                     (case call (generateReplacePreview strat sd remoteData lastSyncData) s4 of
                                        (Inl e, s5) \<Rightarrow> (Inl e, setStatus svc Idle s5)
                                      | (Inr preview, s5) \<Rightarrow>
                                          (case call (applyPreview strat preview False) s5 of
                                             (Inl e, s6) \<Rightarrow> (Inl e, setStatus svc Idle s6)
                                           | (Inr u, s6) \<Rightarrow> (Inr True, setStatus svc Idle s6))))))))"

text \<open>
  \<^verbatim>\<open>acceptConflict\<close>: awaiting a rejected preview promise throws. The new promise is stored
  before it is awaited, and there is no \<^verbatim>\<open>catch\<close>: an error of \<^verbatim>\<open>updatePreviewWithConflict\<close>
  or of \<^verbatim>\<open>applyPreview\<close> leaves the promise in the field.
\<close>

definition acceptConflict ::
  "'w synchroniser \<Rightarrow> ('w, 'z) strategy \<Rightarrow> URI \<Rightarrow> string \<Rightarrow> ('w, 'z) state
     \<Rightarrow> (error + unit) \<times> ('w, 'z) state" where
  "acceptConflict svc strat conflictUri conflictContent s =
     (case syncPreviewPromise s of
        None \<Rightarrow> (Inr (), s)
      | Some (Inl e) \<Rightarrow> (Inl e, s)
      | Some (Inr preview) \<Rightarrow>
          if \<not> hasConflicts preview then (Inr (), s)
          else
            (case call (updatePreviewWithConflict strat preview conflictUri conflictContent) s of
               (p, s0) \<Rightarrow>
                 (let s1 = s0\<lparr>syncPreviewPromise := Some p\<rparr> in
                  case p of
                    Inl e \<Rightarrow> (Inl e, s1)
                  | Inr preview' \<Rightarrow>
                      if \<not> hasConflicts preview' then
                        (case call (applyPreview strat preview' False) s1 of
                           (Inl e, s2) \<Rightarrow> (Inl e, s2)
                         | (Inr u, s2) \<Rightarrow>
                             (Inr (), setStatus svc Idle (s2\<lparr>syncPreviewPromise := None\<rparr>)))
                      else (Inr (), s1))))"

text \<open>
  \<^verbatim>\<open>doTriggerLocalChange\<close>, run by the local-change scheduler. In status
  \<open>HasConflicts\<close> it awaits the preview promise, discards it and runs \<^verbatim>\<open>performSync\<close> again;
  with no promise in the field, \<^verbatim>\<open>preview.remoteUserData\<close> is a \<^verbatim>\<open>TypeError\<close>.
\<close>

definition doTriggerLocalChange ::
  "'w synchroniser \<Rightarrow> ('w, 'z) strategy \<Rightarrow> ('w, 'z) state
     \<Rightarrow> ((error + unit) \<times> ('w, 'z) state) option" where
  "doTriggerLocalChange svc strat s =
     (if status s = HasConflicts then
        (case syncPreviewPromise s of
           None \<Rightarrow> Some (Inl TypeError, s)
         | Some (Inl e) \<Rightarrow> Some (Inl e, s)
         | Some (Inr preview) \<Rightarrow>
             (case performSync svc strat (remoteUserData preview) (lastSyncUserData preview)
                     (s\<lparr>syncPreviewPromise := None\<rparr>) of
                None \<Rightarrow> None
              | Some (Inl e, s1) \<Rightarrow> Some (Inl e, s1)
              | Some (Inr st, s1) \<Rightarrow> Some (Inr (), setStatus svc st s1)))
      else
        (case getLastSyncUserData svc s of
           (None, s1) \<Rightarrow> Some (Inr (), s1\<lparr>emitted := emitted s1 @ [DidChangeLocal]\<rparr>)
         | (Some d, s1) \<Rightarrow>
             (case call (generatePreview strat d (Some d)) s1 of
                (Inl e, s2) \<Rightarrow> Some (Inl e, s2)
              | (Inr preview, s2) \<Rightarrow>
                  Some (Inr (),
                        if hasRemoteChanged preview
                        then s2\<lparr>emitted := emitted s2 @ [DidChangeLocal]\<rparr> else s2))))"

subsection \<open>\<^verbatim>\<open>AbstractFileSynchroniser\<close>\<close>

text \<open>
  The overriding \<^verbatim>\<open>stop\<close> of a file-backed synchroniser deletes its preview file after
  \<^verbatim>\<open>await super.stop()\<close> and ignores an error of the deletion.
\<close>

definition AbstractFileSynchroniser_onStop ::
  "'w synchroniser \<Rightarrow> URI \<Rightarrow> ('w, 'z) state \<Rightarrow> 'w" where
  "AbstractFileSynchroniser_onStop svc localPreviewResource s =
     snd (del svc localPreviewResource (world s))"

section \<open>The specification's envelope shape\<close>

text \<open>
  The specification recognises an envelope by its keys: exactly \<^verbatim>\<open>version\<close> and \<^verbatim>\<open>content\<close>,
  or exactly \<^verbatim>\<open>version\<close>, \<^verbatim>\<open>machineId\<close> and \<^verbatim>\<open>content\<close>, with a number for the version and
  strings for the other two. This definition follows those words; \<open>isSyncData\<close> follows the
  code.
\<close>

definition spec_isEnvelope :: "json \<Rightarrow> bool" where
  "spec_isEnvelope thing =
     (case thing of
        JObj kvs \<Rightarrow>
          (set (map fst kvs) = {''version'', ''content''}
             \<and> is_number (map_of kvs ''version'') \<and> is_string (map_of kvs ''content''))
          \<or> (set (map fst kvs) = {''version'', ''machineId'', ''content''}
             \<and> is_number (map_of kvs ''version'') \<and> is_string (map_of kvs ''machineId'')
             \<and> is_string (map_of kvs ''content''))
      | _ \<Rightarrow> False)"

section \<open>An instance: in-memory collaborators and the strategy of the test suite\<close>

text \<open>
  The collaborators are external to the synchroniser. For concrete runs they are instantiated
  by an in-memory world: a file table, a server holding one envelope under a counter as its
  ref (a write with a stale \<^verbatim>\<open>If-Match\<close> ref is a \<open>PreconditionFailed\<close>), a log of the requests
  to the server, and the list of local backups.
\<close>

record mem =
  enabled :: bool
  files :: "(string \<times> string) list"
  serverRef :: nat
  serverContent :: "string option"
  requests :: "string list"
  backups :: "string list"

definition mem_svc :: "mem synchroniser" where
  "mem_svc =
     \<lparr>resource = ''settings'',
      version = 1,
      lastSyncResource = \<lparr>scheme = ''file'', authority = [], path = ''/sync/settings/lastSyncsettings.json''\<rparr>,
      currentMachineId = ''machine-1'',
      isResourceEnabled = (\<lambda>res w. enabled w),
      readFile = (\<lambda>u w.
        case map_of (files w) (path u) of
          None \<Rightarrow> (Inl (FileOperationError FILE_NOT_FOUND), w)
        | Some text \<Rightarrow> (Inr text, w)),
      writeFile = (\<lambda>u text w. (Inr (), w\<lparr>files := AList.update (path u) text (files w)\<rparr>)),
      del = (\<lambda>u w.
        case map_of (files w) (path u) of
          None \<Rightarrow> (Inl (FileOperationError FILE_NOT_FOUND), w)
        | Some text \<Rightarrow> (Inr (), w\<lparr>files := AList.delete (path u) (files w)\<rparr>)),
      storeRead = (\<lambda>res old hdrs w.
        (Inr \<lparr>ref = show_nat (serverRef w), content = serverContent w\<rparr>,
         w\<lparr>requests := requests w @ [''GET'']\<rparr>)),
      storeWrite = (\<lambda>res text ifMatch hdrs w.
        if (case ifMatch of Some r \<Rightarrow> r \<noteq> show_nat (serverRef w) | None \<Rightarrow> False)
        then (Inl (UserDataSyncError PreconditionFailed), w\<lparr>requests := requests w @ [''POST 412'']\<rparr>)
        else (Inr (show_nat (serverRef w + 1)),
              w\<lparr>serverRef := serverRef w + 1, serverContent := Some text,
                requests := requests w @ [''POST 200'']\<rparr>)),
      storeResolveContent = (\<lambda>res r w.
        (Inr (if r = show_nat (serverRef w) then serverContent w else None), w)),
      backupStoreBackup = (\<lambda>res text w. (Inr (), w\<lparr>backups := backups w @ [text]\<rparr>)),
      backupStoreResolveContent = (\<lambda>res r w. (Inr None, w)),
      basename = (\<lambda>u. rev (takeWhile (\<lambda>c. c \<noteq> CHR ''/'') (rev (path u)))),
      isEqual = (\<lambda>a b. a = b)\<rparr>"

text \<open>
  The strategy of \<^verbatim>\<open>TestSynchroniser\<close> (\<^verbatim>\<open>synchronizer.test.ts\<close>): its preview extends
  \<^verbatim>\<open>ISyncPreview\<close> by an optional \<^verbatim>\<open>ref\<close>, set by \<^verbatim>\<open>generatePreview\<close> only; \<^verbatim>\<open>applyPreview\<close>
  writes an empty content to the server under that ref and records the answer as last-sync.
\<close>

definition test_preview ::
  "bool \<Rightarrow> string option \<Rightarrow> IRemoteUserData \<Rightarrow> IRemoteUserData option \<Rightarrow> (string option) ISyncPreview_scheme" where
  "test_preview c r remoteData lastSyncData =
     \<lparr>remoteUserData = remoteData, lastSyncUserData = lastSyncData, hasLocalChanged = False,
      hasRemoteChanged = False, hasConflicts = c, isLastSyncFromCurrentMachine = False,
      \<dots> = r\<rparr>"

definition test_apply :: "string \<Rightarrow> (mem, string option) state \<Rightarrow> (error + unit) \<times> mem" where
  "test_apply r s =
     (case updateRemoteUserData mem_svc [] (Some r) s of
        (Inl e, s1) \<Rightarrow> (Inl e, world s1)
      | (Inr d, s1) \<Rightarrow>
          (case updateLastSyncUserData mem_svc d [] s1 of (x, s2) \<Rightarrow> (x, world s2)))"

definition test_strategy :: "bool \<Rightarrow> bool \<Rightarrow> (mem, string option) strategy" where
  "test_strategy c failing =
     \<lparr>generatePullPreview = (\<lambda>remoteData lastSyncData s.
        (Inr (test_preview c None remoteData lastSyncData), world s)),
      generatePushPreview = (\<lambda>remoteData lastSyncData s.
        (Inr (test_preview c None remoteData lastSyncData), world s)),
      generateReplacePreview = (\<lambda>sd remoteData lastSyncData s.
        (Inr (test_preview c None remoteData lastSyncData), world s)),
      generatePreview = (\<lambda>remoteData lastSyncData s.
        if failing then (Inl (Error ''failed''), world s)
        else (Inr (test_preview c (Some (ref remoteData)) remoteData lastSyncData), world s)),
      updatePreviewWithConflict = (\<lambda>preview uri text s. (Inr preview, world s)),
      applyPreview = (\<lambda>preview forcePush s.
        case ISyncPreview.more preview of
          None \<Rightarrow> (Inr (), world s)
        | Some r \<Rightarrow> if r = [] then (Inr (), world s) else test_apply r s),
      onStop = world\<rparr>"

definition mem0 :: mem where
  "mem0 = \<lparr>enabled = True, files = [], serverRef = 0, serverContent = None, requests = [],
           backups = []\<rparr>"

definition state0 :: "'w \<Rightarrow> ('w, 'z) state" where
  "state0 w = \<lparr>syncPreviewPromise = None, status = Idle, conflicts = [], syncHeaders = [],
               emitted = [], world = w\<rparr>"

text \<open>
  A server that another machine has written to since this client read it: the client still
  holds ref \<open>0\<close> (nothing on the server), the server is at ref \<open>1\<close>.
\<close>

definition mem_stale :: mem where
  "mem_stale =
     mem0\<lparr>serverRef := 1,
          serverContent := Some (JSON_stringify
            (JObj [(''version'', JNum 1), (''machineId'', JStr ''machine-2''),
                   (''content'', JStr ''x'')]))\<rparr>"

definition remote_absent :: IRemoteUserData where
  "remote_absent = \<lparr>ref = ''0'', syncData = None, additionalProps = []\<rparr>"

text \<open>A remote envelope written by a later version of the strategy.\<close>

definition remote_v2 :: IRemoteUserData where
  "remote_v2 =
     \<lparr>ref = ''1'',
      syncData = Some (JObj [(''version'', JNum 2), (''machineId'', JStr ''machine-2''),
                             (''content'', JStr ''x'')]),
      additionalProps = []\<rparr>"

text \<open>
  A synchroniser in status \<open>HasConflicts\<close>: the preview promise has settled to a preview with
  conflicts, and the strategy has published one conflict.
\<close>

definition conflict_state ::
  "(string option) ISyncPreview_scheme \<Rightarrow> mem \<Rightarrow> (mem, string option) state" where
  "conflict_state preview w =
     \<lparr>syncPreviewPromise = Some (Inr preview),
      status = HasConflicts,
      conflicts = [\<lparr>local = \<lparr>scheme = ''file'', authority = [], path = ''/sync/settings/preview.json''\<rparr>,
                    remote = \<lparr>scheme = ''vscode'', authority = ''userdata'', path = ''/settings/remote''\<rparr>\<rparr>],
      syncHeaders = [],
      emitted = [],
      world = w\<rparr>"

text \<open>
  A strategy whose \<^verbatim>\<open>updatePreviewWithConflict\<close> takes the accepted content as the resolution:
  the preview it returns has no conflict left.
\<close>

definition resolving_strategy :: "(mem, string option) strategy" where
  "resolving_strategy =
     (test_strategy True False)
       \<lparr>updatePreviewWithConflict :=
          (\<lambda>preview uri text s. (Inr (preview\<lparr>hasConflicts := False\<rparr>), world s))\<rparr>"

text \<open>
  A server whose content at ref \<open>1\<close> is not an envelope (it has a key the synchroniser does
  not know), and the handle of that content.
\<close>

definition mem_foreign :: mem where
  "mem_foreign =
     mem0\<lparr>serverRef := 1,
          serverContent := Some (JSON_stringify
            (JObj [(''version'', JNum 1), (''content'', JStr ''x''), (''extra'', JBool True)]))\<rparr>"

text \<open>
  A file-backed synchroniser with the strategy of the test suite. Its \<open>onStop\<close> is the
  deletion of \<^verbatim>\<open>AbstractFileSynchroniser.stop\<close>; it also notes in the request log the status
  the instance has when the deletion runs.
\<close>

definition localPreviewResource :: URI where
  "localPreviewResource = \<lparr>scheme = ''file'', authority = [], path = ''/sync/settings/preview.json''\<rparr>"

fun status_name :: "SyncStatus \<Rightarrow> string" where
  "status_name Idle = ''Idle''"
| "status_name Syncing = ''Syncing''"
| "status_name HasConflicts = ''HasConflicts''"

definition file_strategy :: "(mem, string option) strategy" where
  "file_strategy =
     (test_strategy False False)
       \<lparr>onStop := (\<lambda>s.
          (let w = AbstractFileSynchroniser_onStop mem_svc localPreviewResource s
           in w\<lparr>requests := requests w @ [''del preview, status '' @ status_name (status s)]\<rparr>))\<rparr>"

definition mem_preview :: mem where
  "mem_preview = mem0\<lparr>files := [(''/sync/settings/preview.json'', ''{}'')]\<rparr>"

section \<open>The specification's words for the envelopes written and for a resolved conflict\<close>

text \<open>
  The envelope the specification has written to the remote store, \<^verbatim>\<open>{version, machineId,
  content}\<close>, and to the local backup store, \<^verbatim>\<open>{version, content}\<close>.
\<close>

definition spec_remoteEnvelope :: "int \<Rightarrow> string \<Rightarrow> string \<Rightarrow> json" where
  "spec_remoteEnvelope v m c = JObj [(''version'', JNum v), (''machineId'', JStr m), (''content'', JStr c)]"

definition spec_backupEnvelope :: "int \<Rightarrow> string \<Rightarrow> json" where
  "spec_backupEnvelope v c = JObj [(''version'', JNum v), (''content'', JStr c)]"

text \<open>
  \<^verbatim>\<open>acceptConflict\<close> resolves all conflicts and applies the preview: the preview in progress
  has conflicts, the preview that the strategy returns for the accepted content has none, and
  its application succeeds.
\<close>

definition spec_acceptResolves ::
  "('w, 'z) strategy \<Rightarrow> URI \<Rightarrow> string \<Rightarrow> ('w, 'z) state \<Rightarrow> bool" where
  "spec_acceptResolves strat conflictUri conflictContent s =
     (case syncPreviewPromise s of
        Some (Inr preview) \<Rightarrow>
          hasConflicts preview \<and>
          (case call (updatePreviewWithConflict strat preview conflictUri conflictContent) s of
             (Inr preview', s0) \<Rightarrow>
               \<not> hasConflicts preview' \<and>
               (case call (applyPreview strat preview' False)
                       (s0\<lparr>syncPreviewPromise := Some (Inr preview')\<rparr>) of
                  (Inr u, s2) \<Rightarrow> True
                | (Inl e, s2) \<Rightarrow> False)
           | (Inl e, s0) \<Rightarrow> False)
      | _ \<Rightarrow> False)"

section \<open>Properties\<close>

subsection \<open>The envelope codec\<close>

lemma defined_key: "map_of kvs k \<noteq> None \<Longrightarrow> k \<in> set (map fst kvs)"
  by (simp add: map_of_eq_None_iff)

lemma is_number_defined: "is_number v \<Longrightarrow> v \<noteq> None"
  by (cases v) simp_all

lemma is_string_defined: "is_string v \<Longrightarrow> v \<noteq> None"
  by (cases v) simp_all

lemma two_keys:
  assumes "a \<in> set ks" "b \<in> set ks" "a \<noteq> b" "length (remdups ks) = 2"
  shows "set ks = {a, b}"
proof -
  have "card (set ks) = 2" using assms(4) by (simp add: length_remdups_card_conv)
  moreover have "{a, b} \<subseteq> set ks" using assms by simp
  moreover have "card {a, b} = 2" using assms(3) by simp
  ultimately show ?thesis by (metis List.finite_set card_subset_eq)
qed

lemma three_keys:
  assumes "a \<in> set ks" "b \<in> set ks" "c \<in> set ks" "a \<noteq> b" "a \<noteq> c" "b \<noteq> c"
    "length (remdups ks) = 3"
  shows "set ks = {a, b, c}"
proof -
  have "card (set ks) = 3" using assms(7) by (simp add: length_remdups_card_conv)
  moreover have "{a, b, c} \<subseteq> set ks" using assms by simp
  moreover have "card {a, b, c} = 3" using assms(4,5,6) by simp
  ultimately show ?thesis by (metis List.finite_set card_subset_eq)
qed

lemma card2: "a \<noteq> b \<Longrightarrow> set ks = {a, b} \<Longrightarrow> length (remdups ks) = 2"
  by (simp add: length_remdups_card_conv)

lemma card3: "a \<noteq> b \<Longrightarrow> a \<noteq> c \<Longrightarrow> b \<noteq> c \<Longrightarrow> set ks = {a, b, c} \<Longrightarrow> length (remdups ks) = 3"
  by (simp add: length_remdups_card_conv)


lemma isSyncData_JObj:
  "isSyncData (JObj kvs) = spec_isEnvelope (JObj kvs)"
proof
  assume h: "isSyncData (JObj kvs)"
  have v: "is_number (map_of kvs ''version'')"
    using h by (simp add: isSyncData_def split: if_splits)
  have c: "is_string (map_of kvs ''content'')"
    using h by (simp add: isSyncData_def split: if_splits)
  have k: "length (remdups (map fst kvs)) = 2 \<or>
            (length (remdups (map fst kvs)) = 3 \<and> is_string (map_of kvs ''machineId''))"
    using h by (simp add: isSyncData_def split: if_splits)
  have vk: "''version'' \<in> set (map fst kvs)"
    by (rule defined_key[OF is_number_defined[OF v]])
  have ck: "''content'' \<in> set (map fst kvs)"
    by (rule defined_key[OF is_string_defined[OF c]])
  from k show "spec_isEnvelope (JObj kvs)"
  proof
    assume l: "length (remdups (map fst kvs)) = 2"
    have "set (map fst kvs) = {''version'', ''content''}"
      by (rule two_keys[OF vk ck _ l]) simp
    then show ?thesis using v c by (simp add: spec_isEnvelope_def)
  next
    assume a: "length (remdups (map fst kvs)) = 3 \<and> is_string (map_of kvs ''machineId'')"
    then have m: "is_string (map_of kvs ''machineId'')" and l: "length (remdups (map fst kvs)) = 3"
      by simp_all
    have mk: "''machineId'' \<in> set (map fst kvs)"
      by (rule defined_key[OF is_string_defined[OF m]])
    have "set (map fst kvs) = {''version'', ''machineId'', ''content''}"
      by (rule three_keys[OF vk mk ck _ _ _ l]) simp_all
    then show ?thesis using v c m by (simp add: spec_isEnvelope_def)
  qed
next
  assume h: "spec_isEnvelope (JObj kvs)"
  have v: "is_number (map_of kvs ''version'')"
    using h by (auto simp: spec_isEnvelope_def)
  have c: "is_string (map_of kvs ''content'')"
    using h by (auto simp: spec_isEnvelope_def)
  have "(set (map fst kvs) = {''version'', ''content''}) \<or>
     (set (map fst kvs) = {''version'', ''machineId'', ''content''} \<and> is_string (map_of kvs ''machineId''))"
    using h by (auto simp: spec_isEnvelope_def)
  then have k: "length (remdups (map fst kvs)) = 2 \<or>
            (length (remdups (map fst kvs)) = 3 \<and> is_string (map_of kvs ''machineId''))"
  proof
    assume "set (map fst kvs) = {''version'', ''content''}"
    then have "length (remdups (map fst kvs)) = 2"
      by (rule card2[rotated]) simp
    then show ?thesis by simp
  next
    assume a: "set (map fst kvs) = {''version'', ''machineId'', ''content''} \<and> is_string (map_of kvs ''machineId'')"
    then have "set (map fst kvs) = {''version'', ''machineId'', ''content''}" by simp
    then have "length (remdups (map fst kvs)) = 3"
      by (rule card3[rotated 3]) simp_all
    then show ?thesis using a by simp
  qed
  have d: "map_of kvs ''version'' \<noteq> None" "map_of kvs ''content'' \<noteq> None"
    using is_number_defined[OF v] is_string_defined[OF c] by simp_all
  from k show "isSyncData (JObj kvs)"
  proof
    assume "length (remdups (map fst kvs)) = 2"
    then show ?thesis using v c d by (simp add: isSyncData_def)
  next
    assume a: "length (remdups (map fst kvs)) = 3 \<and> is_string (map_of kvs ''machineId'')"
    then have "map_of kvs ''machineId'' \<noteq> None" using is_string_defined by blast
    then show ?thesis using v c d a by (simp add: isSyncData_def)
  qed
qed

lemma isSyncData_spec: "isSyncData thing = spec_isEnvelope thing"
proof (cases thing)
  case (JObj kvs)
  then show ?thesis by (simp add: isSyncData_JObj)
qed (simp_all add: isSyncData_def spec_isEnvelope_def)

text \<open>
  C4. A value is recognised as \<^verbatim>\<open>SyncData\<close> if and only if it is an object with exactly the
  keys \<^verbatim>\<open>version\<close> (a number) and \<^verbatim>\<open>content\<close> (a string), or exactly those two and
  \<^verbatim>\<open>machineId\<close> (a string). On every other value, and on a text that does not parse,
  \<^verbatim>\<open>isSyncData\<close> is false and \<^verbatim>\<open>parseSyncData\<close> throws an \<open>Incompatible\<close> error.
\<close>

theorem isSyncData_exact_shape:
  "isSyncData thing = spec_isEnvelope thing
   \<and> parseSyncData text =
       (case JSON_parse text of
          None \<Rightarrow> Inl (UserDataSyncError Incompatible)
        | Some t \<Rightarrow> if spec_isEnvelope t then Inr t else Inl (UserDataSyncError Incompatible))"
  by (simp add: isSyncData_spec parseSyncData_def split: option.splits)

theorem isSyncData_exact_shape_witness:
  \<open>\<not> isSyncData (JObj [(''version'', JNum 1), (''content'', JStr ''x''), (''extra'', JBool True)])
   \<and> parseSyncData ''{"version":1,"content":"x","extra":true}'' = Inl (UserDataSyncError Incompatible)\<close>
proof -
  have a: "\<not> spec_isEnvelope (JObj [(''version'', JNum 1), (''content'', JStr ''x''), (''extra'', JBool True)])"
    by code_simp
  have b: \<open>JSON_parse ''{"version":1,"content":"x","extra":true}''
             = Some (JObj [(''version'', JNum 1), (''content'', JStr ''x''), (''extra'', JBool True)])\<close>
    by code_simp
  show ?thesis
    using isSyncData_exact_shape
      [of "JObj [(''version'', JNum 1), (''content'', JStr ''x''), (''extra'', JBool True)]"
          \<open>''{"version":1,"content":"x","extra":true}''\<close>] a b
    by simp
qed

subsection \<open>The retry loop of \<^verbatim>\<open>performSync\<close>\<close>

lemma performSync_guard:
  "isIncompatible svc remoteData \<Longrightarrow>
   performSync svc strat remoteData lastSyncData s =
     Some (Inl (UserDataSyncError Incompatible),
           s\<lparr>emitted := emitted s @ [Telemetry ''sync/incompatible'']\<rparr>)"
  by (subst performSync.simps) simp

lemma performSync_PreconditionFailed:
  "\<not> isIncompatible svc remoteData \<Longrightarrow>
   doSync svc strat remoteData lastSyncData s = (Inl (UserDataSyncError PreconditionFailed), s1) \<Longrightarrow>
   performSync svc strat remoteData lastSyncData s =
     (case getRemoteUserData svc None s1 of
        (Inl e2, s2) \<Rightarrow> Some (Inl e2, s2)
      | (Inr remoteData', s2) \<Rightarrow>
          (case getLastSyncUserData svc s2 of
             (lastSyncData', s3) \<Rightarrow> performSync svc strat remoteData' lastSyncData' s3))"
  by (subst performSync.simps) simp

lemma performSync_LocalPreconditionFailed:
  "\<not> isIncompatible svc remoteData \<Longrightarrow>
   doSync svc strat remoteData lastSyncData s = (Inl (UserDataSyncError LocalPreconditionFailed), s1) \<Longrightarrow>
   performSync svc strat remoteData lastSyncData s = performSync svc strat remoteData lastSyncData s1"
  by (subst performSync.simps) simp

lemma performSync_rethrow:
  "\<not> isIncompatible svc remoteData \<Longrightarrow>
   doSync svc strat remoteData lastSyncData s = (Inl e, s1) \<Longrightarrow>
   e \<noteq> UserDataSyncError PreconditionFailed \<Longrightarrow>
   e \<noteq> UserDataSyncError LocalPreconditionFailed \<Longrightarrow>
   performSync svc strat remoteData lastSyncData s = Some (Inl e, s1)"
  by (subst performSync.simps)
     (simp split: error.splits UserDataSyncErrorCode.splits)

lemma getRemoteUserData_null:
  "getRemoteUserData svc None s =
     (case io (storeRead svc (resource svc) None (syncHeaders s)) s of
        (Inl e, s1) \<Rightarrow> (Inl e, s1)
      | (Inr d, s1) \<Rightarrow>
          (case content d of
             None \<Rightarrow> (Inr \<lparr>ref = ref d, syncData = None, additionalProps = []\<rparr>, s1)
           | Some text \<Rightarrow>
               (case parseSyncData text of
                  Inl e \<Rightarrow> (Inl e, s1)
                | Inr sd \<Rightarrow> (Inr \<lparr>ref = ref d, syncData = Some sd, additionalProps = []\<rparr>, s1))))"
  by (simp add: getRemoteUserData_def getUserData_def)

text \<open>
  C1. When \<^verbatim>\<open>doSync\<close> throws, \<^verbatim>\<open>performSync\<close> handles the error by its code. On
  \<open>PreconditionFailed\<close> it fetches the remote user data again with null as the last-sync
  argument (the store is read with no cached value), reads the persisted last-sync record
  again and calls itself with both; an error of the fetch leaves \<^verbatim>\<open>performSync\<close>. On
  \<open>LocalPreconditionFailed\<close> it calls itself with the same remote and last-sync arguments.
  Every other error is thrown again as it is.
\<close>

theorem performSync_precondition_retry:
  assumes "\<not> isIncompatible svc remoteData"
    and "doSync svc strat remoteData lastSyncData s = (Inl e, s1)"
  shows
    "(e = UserDataSyncError PreconditionFailed \<longrightarrow>
        performSync svc strat remoteData lastSyncData s =
          (case getRemoteUserData svc None s1 of
             (Inl e2, s2) \<Rightarrow> Some (Inl e2, s2)
           | (Inr remoteData', s2) \<Rightarrow>
               (case getLastSyncUserData svc s2 of
                  (lastSyncData', s3) \<Rightarrow> performSync svc strat remoteData' lastSyncData' s3)))
     \<and> (e = UserDataSyncError LocalPreconditionFailed \<longrightarrow>
        performSync svc strat remoteData lastSyncData s =
          performSync svc strat remoteData lastSyncData s1)
     \<and> (e \<noteq> UserDataSyncError PreconditionFailed \<and> e \<noteq> UserDataSyncError LocalPreconditionFailed \<longrightarrow>
        performSync svc strat remoteData lastSyncData s = Some (Inl e, s1))
     \<and> getUserData svc (Inr None) s1 = io (storeRead svc (resource svc) None (syncHeaders s1)) s1"
proof (intro conjI impI)
  assume "e = UserDataSyncError PreconditionFailed"
  then show "performSync svc strat remoteData lastSyncData s =
          (case getRemoteUserData svc None s1 of
             (Inl e2, s2) \<Rightarrow> Some (Inl e2, s2)
           | (Inr remoteData', s2) \<Rightarrow>
               (case getLastSyncUserData svc s2 of
                  (lastSyncData', s3) \<Rightarrow> performSync svc strat remoteData' lastSyncData' s3))"
    using performSync_PreconditionFailed[OF assms(1)] assms(2) by simp
next
  assume "e = UserDataSyncError LocalPreconditionFailed"
  then show "performSync svc strat remoteData lastSyncData s =
          performSync svc strat remoteData lastSyncData s1"
    using performSync_LocalPreconditionFailed[OF assms(1)] assms(2) by simp
next
  assume "e \<noteq> UserDataSyncError PreconditionFailed \<and> e \<noteq> UserDataSyncError LocalPreconditionFailed"
  then show "performSync svc strat remoteData lastSyncData s = Some (Inl e, s1)"
    using performSync_rethrow[OF assms] by simp
next
  show "getUserData svc (Inr None) s1 = io (storeRead svc (resource svc) None (syncHeaders s1)) s1"
    by (simp add: getUserData_def)
qed

theorem performSync_precondition_retry_witness:
  "map_option (\<lambda>(r, s'). (r, requests (world s'), syncPreviewPromise s'))
     (performSync mem_svc (test_strategy False False) remote_absent None (state0 mem_stale))
   = Some (Inr Idle, [''POST 412'', ''GET'', ''POST 200''], None)"
proof -
  have h1: "\<not> isIncompatible mem_svc remote_absent"
    by code_simp
  have "fst (doSync mem_svc (test_strategy False False) remote_absent None (state0 mem_stale))
          = Inl (UserDataSyncError PreconditionFailed)"
    by code_simp
  then have h2: "doSync mem_svc (test_strategy False False) remote_absent None (state0 mem_stale)
     = (Inl (UserDataSyncError PreconditionFailed),
        snd (doSync mem_svc (test_strategy False False) remote_absent None (state0 mem_stale)))"
    by (metis prod.collapse)
  note eq = performSync_precondition_retry[OF h1 h2, THEN conjunct1, rule_format, OF refl]
  have ev: "map_option (\<lambda>(r, s'). (r, requests (world s'), syncPreviewPromise s'))
     (case getRemoteUserData mem_svc None
             (snd (doSync mem_svc (test_strategy False False) remote_absent None (state0 mem_stale))) of
        (Inl e2, s2) \<Rightarrow> Some (Inl e2, s2)
      | (Inr remoteData', s2) \<Rightarrow>
          (case getLastSyncUserData mem_svc s2 of
             (lastSyncData', s3) \<Rightarrow>
               performSync mem_svc (test_strategy False False) remoteData' lastSyncData' s3))
     = Some (Inr Idle, [''POST 412'', ''GET'', ''POST 200''], None)"
    by code_simp
  show ?thesis
    by (simp only: eq ev)
qed

text \<open>
  C5. When the remote envelope is present and its version is greater than the version of the
  strategy, \<^verbatim>\<open>performSync\<close> throws \<open>Incompatible\<close> (after the telemetry ping) without
  calling \<^verbatim>\<open>doSync\<close>: the world, the preview promise and the status are as before. The error
  is final also when it is raised by the call that retries after a \<open>PreconditionFailed\<close>: it
  leaves the outer call, and nothing is fetched or tried again.
\<close>

theorem performSync_incompatible_no_retry:
  assumes "syncData remoteData = Some sd"
    and "get_prop sd ''version'' = Some (JNum v)"
    and "v > version svc"
  shows
    "performSync svc strat remoteData lastSyncData s =
       Some (Inl (UserDataSyncError Incompatible),
             s\<lparr>emitted := emitted s @ [Telemetry ''sync/incompatible'']\<rparr>)
     \<and> (\<forall>r0 l0 s0 s1 s2.
          \<not> isIncompatible svc r0
          \<and> doSync svc strat r0 l0 s0 = (Inl (UserDataSyncError PreconditionFailed), s1)
          \<and> getRemoteUserData svc None s1 = (Inr remoteData, s2)
          \<longrightarrow> performSync svc strat r0 l0 s0 =
                Some (Inl (UserDataSyncError Incompatible),
                      (snd (getLastSyncUserData svc s2))
                        \<lparr>emitted := emitted (snd (getLastSyncUserData svc s2))
                                      @ [Telemetry ''sync/incompatible'']\<rparr>))"
proof -
  have inc: "isIncompatible svc remoteData"
    using assms by (simp add: isIncompatible_def)
  show ?thesis
  proof (intro conjI allI impI)
    show "performSync svc strat remoteData lastSyncData s =
       Some (Inl (UserDataSyncError Incompatible),
             s\<lparr>emitted := emitted s @ [Telemetry ''sync/incompatible'']\<rparr>)"
      by (rule performSync_guard[OF inc])
  next
    fix r0 l0 s0 s1 s2
    assume a: "\<not> isIncompatible svc r0
          \<and> doSync svc strat r0 l0 s0 = (Inl (UserDataSyncError PreconditionFailed), s1)
          \<and> getRemoteUserData svc None s1 = (Inr remoteData, s2)"
    then have "performSync svc strat r0 l0 s0 =
       (case getLastSyncUserData svc s2 of
             (lastSyncData', s3) \<Rightarrow> performSync svc strat remoteData lastSyncData' s3)"
      using performSync_PreconditionFailed[of svc r0 strat l0 s0 s1] by simp
    then show "performSync svc strat r0 l0 s0 =
                Some (Inl (UserDataSyncError Incompatible),
                      (snd (getLastSyncUserData svc s2))
                        \<lparr>emitted := emitted (snd (getLastSyncUserData svc s2))
                                      @ [Telemetry ''sync/incompatible'']\<rparr>)"
      by (simp add: performSync_guard[OF inc] split: prod.splits)
  qed
qed

theorem performSync_incompatible_no_retry_witness:
  "performSync mem_svc (test_strategy False False) remote_v2 None (state0 mem0) =
     Some (Inl (UserDataSyncError Incompatible),
           (state0 mem0)\<lparr>emitted := [Telemetry ''sync/incompatible'']\<rparr>)"
proof -
  have h1: "syncData remote_v2 = Some (JObj [(''version'', JNum 2), (''machineId'', JStr ''machine-2''),
                             (''content'', JStr ''x'')])"
    by (simp add: remote_v2_def)
  have h2: "get_prop (JObj [(''version'', JNum 2), (''machineId'', JStr ''machine-2''),
                             (''content'', JStr ''x'')]) ''version'' = Some (JNum 2)"
    by simp
  have h3: "2 > version mem_svc"
    by (simp add: mem_svc_def)
  have e: "emitted (state0 mem0 :: (mem, string option) state) = []"
    by (simp add: state0_def)
  show ?thesis
    using performSync_incompatible_no_retry[OF h1 h2 h3, THEN conjunct1,
            of "test_strategy False False" None "state0 mem0"]
    by (simp add: e)
qed

subsection \<open>The latest remote user data\<close>

text \<open>
  C6. With a last-sync record, \<^verbatim>\<open>getLatestRemoteUserData\<close> returns the record and leaves the
  state as it is (the store is not contacted) when the manifest's latest ref of the resource
  is the record's ref, or when the manifest has no ref for the resource and the record's
  envelope is null. In every other case, and with no record, it is \<^verbatim>\<open>getRemoteUserData\<close>.
\<close>

theorem getLatestRemoteUserData_short_circuit:
  "(lastSyncData = Some d \<and>
      (latestRefOf svc manifest = Some (ref d)
        \<or> (latestRefOf svc manifest = None \<and> syncData d = None))
      \<longrightarrow> getLatestRemoteUserData svc manifest lastSyncData s = (Inr d, s))
   \<and> (lastSyncData = Some d \<and>
      \<not> (latestRefOf svc manifest = Some (ref d)
        \<or> (latestRefOf svc manifest = None \<and> syncData d = None))
      \<longrightarrow> getLatestRemoteUserData svc manifest lastSyncData s = getRemoteUserData svc lastSyncData s)
   \<and> (lastSyncData = None
      \<longrightarrow> getLatestRemoteUserData svc manifest lastSyncData s = getRemoteUserData svc lastSyncData s)"
  by (auto simp: getLatestRemoteUserData_def Let_def)

theorem getLatestRemoteUserData_short_circuit_witness:
  "getLatestRemoteUserData mem_svc (Some \<lparr>latest = Some [(''settings'', ''0'')], session = ''1''\<rparr>)
      (Some remote_absent) (state0 mem0 :: (mem, string option) state)
     = (Inr remote_absent, state0 mem0)
   \<and> getLatestRemoteUserData mem_svc (Some \<lparr>latest = None, session = ''1''\<rparr>)
      (Some remote_absent) (state0 mem0 :: (mem, string option) state)
     = (Inr remote_absent, state0 mem0)
   \<and> requests (world (snd (getLatestRemoteUserData mem_svc
        (Some \<lparr>latest = Some [(''settings'', ''1'')], session = ''1''\<rparr>)
        (Some remote_absent) (state0 mem_stale :: (mem, string option) state)))) = [''GET'']"
proof -
  have a: "latestRefOf mem_svc (Some \<lparr>latest = Some [(''settings'', ''0'')], session = ''1''\<rparr>)
             = Some (ref remote_absent)"
    by code_simp
  have b: "latestRefOf mem_svc (Some \<lparr>latest = None, session = ''1''\<rparr>) = None"
    by code_simp
  have b': "syncData remote_absent = None"
    by code_simp
  have c: "\<not> (latestRefOf mem_svc (Some \<lparr>latest = Some [(''settings'', ''1'')], session = ''1''\<rparr>)
                = Some (ref remote_absent)
             \<or> (latestRefOf mem_svc (Some \<lparr>latest = Some [(''settings'', ''1'')], session = ''1''\<rparr>) = None
                \<and> syncData remote_absent = None))"
    by code_simp
  have d: "requests (world (snd (getRemoteUserData mem_svc (Some remote_absent)
              (state0 mem_stale :: (mem, string option) state)))) = [''GET'']"
    by code_simp
  have 1: "getLatestRemoteUserData mem_svc (Some \<lparr>latest = Some [(''settings'', ''0'')], session = ''1''\<rparr>)
      (Some remote_absent) (state0 mem0 :: (mem, string option) state)
     = (Inr remote_absent, state0 mem0)"
    using getLatestRemoteUserData_short_circuit
      [of "Some remote_absent" remote_absent mem_svc
          "Some \<lparr>latest = Some [(''settings'', ''0'')], session = ''1''\<rparr>" "state0 mem0"] a
    by simp
  have 2: "getLatestRemoteUserData mem_svc (Some \<lparr>latest = None, session = ''1''\<rparr>)
      (Some remote_absent) (state0 mem0 :: (mem, string option) state)
     = (Inr remote_absent, state0 mem0)"
    using getLatestRemoteUserData_short_circuit
      [of "Some remote_absent" remote_absent mem_svc
          "Some \<lparr>latest = None, session = ''1''\<rparr>" "state0 mem0"] b b'
    by simp
  have 3: "getLatestRemoteUserData mem_svc
        (Some \<lparr>latest = Some [(''settings'', ''1'')], session = ''1''\<rparr>)
        (Some remote_absent) (state0 mem_stale :: (mem, string option) state)
      = getRemoteUserData mem_svc (Some remote_absent) (state0 mem_stale)"
    using getLatestRemoteUserData_short_circuit
      [of "Some remote_absent" remote_absent mem_svc
          "Some \<lparr>latest = Some [(''settings'', ''1'')], session = ''1''\<rparr>" "state0 mem_stale"] c
    by simp
  show ?thesis
    by (simp only: 1 2 3 d)
qed

subsection \<open>Re-entry of \<^verbatim>\<open>sync\<close>\<close>

lemma isEnabled_syncHeaders [simp]:
  "isEnabled svc (s\<lparr>syncHeaders := h\<rparr>) = isEnabled svc s"
  by (simp add: isEnabled_def)

text \<open>
  C2 (as amended). When the resource is enabled and the status is \<open>Syncing\<close> or
  \<open>HasConflicts\<close>, \<^verbatim>\<open>sync\<close> returns at once: the status, the conflicts, the preview promise,
  the emitted events and the world are as before (the headers of the call are cleared), so no
  status event is fired and nothing is reconciled.
\<close>

theorem sync_refuses_reentry:
  assumes "isEnabled svc s"
    and "status s = Syncing \<or> status s = HasConflicts"
  shows "sync svc strat manifest headers s = Some (Inr (), s\<lparr>syncHeaders := []\<rparr>)"
  using assms by (auto simp: sync_def Let_def)

theorem sync_refuses_reentry_witness:
  "map_option (\<lambda>(res, s'). (res, status s', syncPreviewPromise s', emitted s', requests (world s')))
     (sync mem_svc (test_strategy True False) None []
        (conflict_state (test_preview True (Some ''0'') remote_absent None) mem0))
   = Some (Inr (), HasConflicts, Some (Inr (test_preview True (Some ''0'') remote_absent None)), [], [])"
proof -
  have h1: "isEnabled mem_svc (conflict_state (test_preview True (Some ''0'') remote_absent None) mem0)"
    by code_simp
  have h2: "status (conflict_state (test_preview True (Some ''0'') remote_absent None) mem0) = Syncing
            \<or> status (conflict_state (test_preview True (Some ''0'') remote_absent None) mem0) = HasConflicts"
    by code_simp
  have ev: "map_option (\<lambda>(res, s'). (res, status s', syncPreviewPromise s', emitted s', requests (world s')))
              (Some (Inr () :: error + unit, (conflict_state (test_preview True (Some ''0'') remote_absent None) mem0)
                                \<lparr>syncHeaders := []\<rparr>))
            = Some (Inr (), HasConflicts, Some (Inr (test_preview True (Some ''0'') remote_absent None)),
                    [], [])"
    by code_simp
  show ?thesis
    by (simp only: sync_refuses_reentry[OF h1 h2] ev)
qed

text \<open>
  C2 as stated does not hold when the resource is disabled: \<^verbatim>\<open>sync\<close> then calls \<^verbatim>\<open>stop\<close>
  whenever the status is not \<open>Idle\<close>. From \<open>HasConflicts\<close> the preview is cancelled, the status
  becomes \<open>Idle\<close> with its event, and the conflicts are cleared.
\<close>

theorem sync_refuses_reentry_counterexample:
  "status (conflict_state (test_preview True (Some ''0'') remote_absent None) (mem0\<lparr>enabled := False\<rparr>))
     = HasConflicts
   \<and> map_option (\<lambda>(res, s'). (res, status s', conflicts s', syncPreviewPromise s', emitted s'))
       (sync mem_svc (test_strategy True False) None []
          (conflict_state (test_preview True (Some ''0'') remote_absent None) (mem0\<lparr>enabled := False\<rparr>)))
     = Some (Inr (), Idle, [], None,
             [PreviewCancelled, DidChangeStatus Idle, Telemetry ''sync/conflictsResolved'',
              DidChangeConflicts []])"
  by code_simp

subsection \<open>The preview promise\<close>

lemma promise_setConflicts [simp]:
  "syncPreviewPromise (setConflicts svc cs s) = syncPreviewPromise s"
  by (simp add: setConflicts_def)

lemma promise_setStatus [simp]:
  "syncPreviewPromise (setStatus svc st s) = syncPreviewPromise s"
  by (simp add: setStatus_def Let_def)

lemma promise_io [simp]:
  "syncPreviewPromise (snd (io f s)) = syncPreviewPromise s"
  by (simp add: io_def split: prod.splits)

lemma promise_call [simp]:
  "syncPreviewPromise (snd (call h s)) = syncPreviewPromise s"
  by (simp add: call_def split: prod.splits)

lemma promise_getLastSyncUserData [simp]:
  "syncPreviewPromise (snd (getLastSyncUserData svc s)) = syncPreviewPromise s"
  by (simp add: getLastSyncUserData_def io_def split: prod.splits sum.splits)

lemma promise_getUserData [simp]:
  "syncPreviewPromise (snd (getUserData svc a s)) = syncPreviewPromise s"
  by (simp add: getUserData_def io_def split: prod.splits sum.splits)

lemma promise_getRemoteUserData [simp]:
  "syncPreviewPromise (snd (getRemoteUserData svc l s)) = syncPreviewPromise s"
proof -
  have "snd (getRemoteUserData svc l s) = snd (getUserData svc (Inr l) s)"
    by (simp add: getRemoteUserData_def split: prod.splits sum.splits option.splits)
  then show ?thesis by simp
qed

lemma promise_getLatestRemoteUserData [simp]:
  "syncPreviewPromise (snd (getLatestRemoteUserData svc m l s)) = syncPreviewPromise s"
  by (simp add: getLatestRemoteUserData_def Let_def split: option.splits)

lemma doSync_promise:
  "doSync svc strat r l s = (res, s') \<Longrightarrow>
   (syncPreviewPromise s' = None) = (res \<noteq> Inr HasConflicts)"
  by (auto simp: doSync_def call_def split: option.splits prod.splits sum.splits if_splits)

lemma doSync_intact:
  "doSync svc strat r l s = (Inr HasConflicts, s') \<Longrightarrow> syncPreviewPromise s = Some p \<Longrightarrow>
   syncPreviewPromise s' = Some p"
  by (auto simp: doSync_def call_def split: option.splits prod.splits sum.splits if_splits)

lemma stop_promise:
  "syncPreviewPromise (AbstractSynchroniser_stop svc s) = None"
  "syncPreviewPromise (stop svc strat s) = None"
  by (simp_all add: stop_def AbstractSynchroniser_stop_def Let_def split: option.splits)

lemma acceptConflict_promise:
  "acceptConflict svc strat u c s = (res, s') \<Longrightarrow> syncPreviewPromise s \<noteq> None \<Longrightarrow>
   (syncPreviewPromise s' = None) = spec_acceptResolves strat u c s"
  by (auto simp: acceptConflict_def spec_acceptResolves_def call_def Let_def
           split: option.splits prod.splits sum.splits if_splits)

lemma acceptConflict_none:
  "syncPreviewPromise s = None \<Longrightarrow> acceptConflict svc strat u c s = (Inr (), s)"
  by (simp add: acceptConflict_def)

lemma doTriggerLocalChange_discards:
  "status s = HasConflicts \<Longrightarrow> syncPreviewPromise s = Some (Inr preview) \<Longrightarrow>
   doTriggerLocalChange svc strat s =
     (case performSync svc strat (remoteUserData preview) (lastSyncUserData preview)
             (s\<lparr>syncPreviewPromise := None\<rparr>) of
        None \<Rightarrow> None
      | Some (Inl e, s1) \<Rightarrow> Some (Inl e, s1)
      | Some (Inr st, s1) \<Rightarrow> Some (Inr (), setStatus svc st s1))"
  by (simp add: doTriggerLocalChange_def)

lemma doTriggerLocalChange_frame:
  "status s \<noteq> HasConflicts \<Longrightarrow> doTriggerLocalChange svc strat s = Some (res, s') \<Longrightarrow>
   syncPreviewPromise s' = syncPreviewPromise s"
proof -
  assume a: "status s \<noteq> HasConflicts" and b: "doTriggerLocalChange svc strat s = Some (res, s')"
  obtain l s1 where g: "getLastSyncUserData svc s = (l, s1)" by (cases "getLastSyncUserData svc s")
  have p1: "syncPreviewPromise s1 = syncPreviewPromise s"
    using promise_getLastSyncUserData[of svc s] g by simp
  show ?thesis
  proof (cases l)
    case None
    then show ?thesis using a b g p1 by (auto simp: doTriggerLocalChange_def)
  next
    case (Some d)
    obtain x s2 where c: "call (generatePreview strat d (Some d)) s1 = (x, s2)"
      by (cases "call (generatePreview strat d (Some d)) s1")
    have p2: "syncPreviewPromise s2 = syncPreviewPromise s1"
      using promise_call[of "generatePreview strat d (Some d)" s1] c by simp
    show ?thesis using a b g c Some p1 p2
      by (auto simp: doTriggerLocalChange_def split: sum.splits if_splits)
  qed
qed

text \<open>
  C3 (as amended). The preview promise is reset to null by \<^verbatim>\<open>doSync\<close> when it has applied the
  preview or when an error leaves it, by \<^verbatim>\<open>stop\<close>, by \<^verbatim>\<open>acceptConflict\<close> when all conflicts
  are resolved and the preview is applied, and by \<^verbatim>\<open>doTriggerLocalChange\<close> in status
  \<open>HasConflicts\<close>, which discards the settled preview before it runs \<^verbatim>\<open>performSync\<close> again.
  When \<^verbatim>\<open>doSync\<close> returns \<open>HasConflicts\<close> the promise is not null, and it is the one that was
  there if there was one. \<^verbatim>\<open>acceptConflict\<close> without a promise does nothing; in another
  status \<^verbatim>\<open>doTriggerLocalChange\<close> leaves the promise as it is, and so do \<^verbatim>\<open>setStatus\<close>,
  \<^verbatim>\<open>setConflicts\<close> and the reads of the last-sync record and of the remote user data.
\<close>

theorem preview_promise_reset:
  "(\<forall>res s'. doSync svc strat r l s = (res, s') \<longrightarrow>
       (syncPreviewPromise s' = None) = (res \<noteq> Inr HasConflicts)
       \<and> (res = Inr HasConflicts \<longrightarrow>
            (\<forall>p. syncPreviewPromise s = Some p \<longrightarrow> syncPreviewPromise s' = Some p)))
   \<and> syncPreviewPromise (stop svc strat s) = None
   \<and> (\<forall>res s'. acceptConflict svc strat u c s = (res, s') \<longrightarrow>
         (if syncPreviewPromise s = None then s' = s
          else (syncPreviewPromise s' = None) = spec_acceptResolves strat u c s))
   \<and> (\<forall>preview. status s = HasConflicts \<and> syncPreviewPromise s = Some (Inr preview) \<longrightarrow>
         doTriggerLocalChange svc strat s =
           (case performSync svc strat (remoteUserData preview) (lastSyncUserData preview)
                   (s\<lparr>syncPreviewPromise := None\<rparr>) of
              None \<Rightarrow> None
            | Some (Inl e, s1) \<Rightarrow> Some (Inl e, s1)
            | Some (Inr st, s1) \<Rightarrow> Some (Inr (), setStatus svc st s1)))
   \<and> (\<forall>res s'. status s \<noteq> HasConflicts \<and> doTriggerLocalChange svc strat s = Some (res, s') \<longrightarrow>
         syncPreviewPromise s' = syncPreviewPromise s)
   \<and> syncPreviewPromise (setStatus svc st s) = syncPreviewPromise s
   \<and> syncPreviewPromise (setConflicts svc cs s) = syncPreviewPromise s
   \<and> syncPreviewPromise (snd (getLastSyncUserData svc s)) = syncPreviewPromise s
   \<and> syncPreviewPromise (snd (getRemoteUserData svc l s)) = syncPreviewPromise s
   \<and> syncPreviewPromise (snd (getLatestRemoteUserData svc m l s)) = syncPreviewPromise s"
proof (intro conjI allI impI)
  fix res s'
  assume "doSync svc strat r l s = (res, s')"
  then show "(syncPreviewPromise s' = None) = (res \<noteq> Inr HasConflicts)"
    by (rule doSync_promise)
next
  fix res s' p
  assume "doSync svc strat r l s = (res, s')" "res = Inr HasConflicts" "syncPreviewPromise s = Some p"
  then show "syncPreviewPromise s' = Some p"
    using doSync_intact by blast
next
  show "syncPreviewPromise (stop svc strat s) = None"
    by (rule stop_promise)
next
  fix res s'
  assume a: "acceptConflict svc strat u c s = (res, s')"
  show "if syncPreviewPromise s = None then s' = s
        else (syncPreviewPromise s' = None) = spec_acceptResolves strat u c s"
  proof (cases "syncPreviewPromise s = None")
    case True
    then show ?thesis using a acceptConflict_none[of s svc strat u c] by simp
  next
    case False
    have "(syncPreviewPromise s' = None) = spec_acceptResolves strat u c s"
      by (rule acceptConflict_promise[OF a False])
    with False show ?thesis by (simp only: if_False)
  qed
next
  fix preview
  assume "status s = HasConflicts \<and> syncPreviewPromise s = Some (Inr preview)"
  then show "doTriggerLocalChange svc strat s =
           (case performSync svc strat (remoteUserData preview) (lastSyncUserData preview)
                   (s\<lparr>syncPreviewPromise := None\<rparr>) of
              None \<Rightarrow> None
            | Some (Inl e, s1) \<Rightarrow> Some (Inl e, s1)
            | Some (Inr st, s1) \<Rightarrow> Some (Inr (), setStatus svc st s1))"
    by (simp add: doTriggerLocalChange_discards)
next
  fix res s'
  assume "status s \<noteq> HasConflicts \<and> doTriggerLocalChange svc strat s = Some (res, s')"
  then show "syncPreviewPromise s' = syncPreviewPromise s"
    using doTriggerLocalChange_frame by blast
qed simp_all

theorem preview_promise_reset_witness:
  "syncPreviewPromise (snd (doSync mem_svc (test_strategy True False) remote_absent None (state0 mem0)))
     \<noteq> None
   \<and> syncPreviewPromise (snd (doSync mem_svc (test_strategy False False) remote_absent None (state0 mem0)))
     = None
   \<and> syncPreviewPromise (snd (acceptConflict mem_svc resolving_strategy
        \<lparr>scheme = ''file'', authority = [], path = ''/sync/settings/preview.json''\<rparr> []
        (conflict_state (test_preview True (Some ''0'') remote_absent None) mem0)))
     = None"
proof -
  have a: "fst (doSync mem_svc (test_strategy True False) remote_absent None (state0 mem0))
             = Inr HasConflicts"
    by code_simp
  have b: "fst (doSync mem_svc (test_strategy False False) remote_absent None (state0 mem0))
             = Inr Idle"
    by code_simp
  have c: "syncPreviewPromise (conflict_state (test_preview True (Some ''0'') remote_absent None) mem0)
             \<noteq> None"
    by (simp add: conflict_state_def)
  have d: "spec_acceptResolves resolving_strategy
             \<lparr>scheme = ''file'', authority = [], path = ''/sync/settings/preview.json''\<rparr> []
             (conflict_state (test_preview True (Some ''0'') remote_absent None) mem0)"
    by code_simp
  have ha: "doSync mem_svc (test_strategy True False) remote_absent None (state0 mem0)
      = (Inr HasConflicts,
         snd (doSync mem_svc (test_strategy True False) remote_absent None (state0 mem0)))"
    using a by (metis prod.collapse)
  have hb: "doSync mem_svc (test_strategy False False) remote_absent None (state0 mem0)
      = (Inr Idle,
         snd (doSync mem_svc (test_strategy False False) remote_absent None (state0 mem0)))"
    using b by (metis prod.collapse)
  have hc: "acceptConflict mem_svc resolving_strategy
        \<lparr>scheme = ''file'', authority = [], path = ''/sync/settings/preview.json''\<rparr> []
        (conflict_state (test_preview True (Some ''0'') remote_absent None) mem0)
      = (fst (acceptConflict mem_svc resolving_strategy
          \<lparr>scheme = ''file'', authority = [], path = ''/sync/settings/preview.json''\<rparr> []
          (conflict_state (test_preview True (Some ''0'') remote_absent None) mem0)),
         snd (acceptConflict mem_svc resolving_strategy
          \<lparr>scheme = ''file'', authority = [], path = ''/sync/settings/preview.json''\<rparr> []
          (conflict_state (test_preview True (Some ''0'') remote_absent None) mem0)))"
    by simp
  have 1: "syncPreviewPromise
             (snd (doSync mem_svc (test_strategy True False) remote_absent None (state0 mem0))) \<noteq> None"
    using preview_promise_reset
      [of mem_svc "test_strategy True False" remote_absent None "state0 mem0",
       THEN conjunct1, rule_format, OF ha, THEN conjunct1]
    by simp
  have 2: "syncPreviewPromise
             (snd (doSync mem_svc (test_strategy False False) remote_absent None (state0 mem0))) = None"
    using preview_promise_reset
      [of mem_svc "test_strategy False False" remote_absent None "state0 mem0",
       THEN conjunct1, rule_format, OF hb, THEN conjunct1]
    by simp
  have 3: "syncPreviewPromise (snd (acceptConflict mem_svc resolving_strategy
        \<lparr>scheme = ''file'', authority = [], path = ''/sync/settings/preview.json''\<rparr> []
        (conflict_state (test_preview True (Some ''0'') remote_absent None) mem0))) = None"
    using preview_promise_reset
      [of mem_svc resolving_strategy _ _
          "conflict_state (test_preview True (Some ''0'') remote_absent None) mem0"
          "\<lparr>scheme = ''file'', authority = [], path = ''/sync/settings/preview.json''\<rparr>" "[]",
       THEN conjunct2, THEN conjunct2, THEN conjunct1, rule_format, OF hc] c d
    by (simp only: if_False simp_thms)
  show ?thesis
    using 1 2 3 by (intro conjI)
qed

text \<open>
  C3 as stated does not hold: \<^verbatim>\<open>doTriggerLocalChange\<close> resets the promise in none of the four
  listed cases. In status \<open>HasConflicts\<close>, with a preview whose remote envelope has version 2
  against a strategy of version 1, it discards the promise and \<^verbatim>\<open>performSync\<close> throws
  \<open>Incompatible\<close> before \<^verbatim>\<open>doSync\<close>: the promise is null, nothing was applied (the world is as
  before), \<^verbatim>\<open>stop\<close> did not run (the status is still \<open>HasConflicts\<close>). The reset is what lets
  a local change end the conflict: on the state where \<^verbatim>\<open>doSync\<close> alone awaits the promise
  that is there and returns \<open>HasConflicts\<close>, \<^verbatim>\<open>doTriggerLocalChange\<close> has a new preview
  generated, which the strategy now finds free of conflicts and applies.
\<close>

theorem preview_promise_reset_counterexample:
  "syncPreviewPromise (conflict_state (test_preview True (Some ''1'') remote_v2 None) mem0) \<noteq> None
   \<and> doTriggerLocalChange mem_svc (test_strategy True False)
        (conflict_state (test_preview True (Some ''1'') remote_v2 None) mem0)
      = Some (Inl (UserDataSyncError Incompatible),
              (conflict_state (test_preview True (Some ''1'') remote_v2 None) mem0)
                \<lparr>syncPreviewPromise := None, emitted := [Telemetry ''sync/incompatible'']\<rparr>)
   \<and> doSync mem_svc (test_strategy False False) remote_absent None
        (conflict_state (test_preview True (Some ''0'') remote_absent None) mem0)
      = (Inr HasConflicts, conflict_state (test_preview True (Some ''0'') remote_absent None) mem0)
   \<and> map_option (\<lambda>(res, s'). (res, status s', syncPreviewPromise s', requests (world s')))
        (doTriggerLocalChange mem_svc (test_strategy False False)
           (conflict_state (test_preview True (Some ''0'') remote_absent None) mem0))
      = Some (Inr (), Idle, None, [''POST 200''])"
  by code_simp

subsection \<open>The envelopes written\<close>

text \<open>
  C10. \<^verbatim>\<open>updateRemoteUserData\<close> writes to the remote store the text of an envelope with the
  keys \<^verbatim>\<open>version\<close>, \<^verbatim>\<open>machineId\<close> and \<^verbatim>\<open>content\<close>, where \<^verbatim>\<open>machineId\<close> is the id of the current
  machine; \<^verbatim>\<open>backupLocal\<close> hands to the local backup store the text of an envelope with the
  keys \<^verbatim>\<open>version\<close> and \<^verbatim>\<open>content\<close> only, so a local backup has no \<^verbatim>\<open>machineId\<close>. Both
  envelopes are recognised by \<^verbatim>\<open>isSyncData\<close>.
\<close>

theorem envelopes_written:
  "updateRemoteUserData svc text r s =
     (case io (storeWrite svc (resource svc)
                 (JSON_stringify (spec_remoteEnvelope (version svc) (currentMachineId svc) text))
                 r (syncHeaders s)) s of
        (Inl e, s1) \<Rightarrow> (Inl e, s1)
      | (Inr r', s1) \<Rightarrow>
          (Inr \<lparr>ref = r',
                syncData = Some (spec_remoteEnvelope (version svc) (currentMachineId svc) text),
                additionalProps = []\<rparr>, s1))
   \<and> backupLocal svc text s =
       io (backupStoreBackup svc (resource svc)
             (JSON_stringify (spec_backupEnvelope (version svc) text))) s
   \<and> Object_keys (spec_remoteEnvelope v m c) = [''version'', ''machineId'', ''content'']
   \<and> get_prop (spec_remoteEnvelope v m c) ''machineId'' = Some (JStr m)
   \<and> isSyncData (spec_remoteEnvelope v m c)
   \<and> Object_keys (spec_backupEnvelope v c) = [''version'', ''content'']
   \<and> get_prop (spec_backupEnvelope v c) ''machineId'' = None
   \<and> isSyncData (spec_backupEnvelope v c)"
  unfolding spec_remoteEnvelope_def spec_backupEnvelope_def
  by (simp add: updateRemoteUserData_def backupLocal_def isSyncData_def Let_def)

theorem envelopes_written_witness:
  \<open>serverContent (world (snd (updateRemoteUserData mem_svc ''abc'' None
       (state0 mem0 :: (mem, string option) state))))
     = Some ''{"version":1,"machineId":"machine-1","content":"abc"}''
   \<and> backups (world (snd (backupLocal mem_svc ''abc'' (state0 mem0 :: (mem, string option) state))))
     = [''{"version":1,"content":"abc"}'']\<close>
proof -
  have a: \<open>serverContent (world (snd
     (case io (storeWrite mem_svc (resource mem_svc)
                 (JSON_stringify (spec_remoteEnvelope (version mem_svc) (currentMachineId mem_svc) ''abc''))
                 None (syncHeaders (state0 mem0 :: (mem, string option) state))) (state0 mem0) of
        (Inl e, s1) \<Rightarrow> (Inl e, s1)
      | (Inr r', s1) \<Rightarrow>
          (Inr \<lparr>ref = r',
                syncData = Some (spec_remoteEnvelope (version mem_svc) (currentMachineId mem_svc) ''abc''),
                additionalProps = []\<rparr>, s1))))
     = Some ''{"version":1,"machineId":"machine-1","content":"abc"}''\<close>
    by code_simp
  have b: \<open>backups (world (snd
       (io (backupStoreBackup mem_svc (resource mem_svc)
             (JSON_stringify (spec_backupEnvelope (version mem_svc) ''abc'')))
           (state0 mem0 :: (mem, string option) state))))
     = [''{"version":1,"content":"abc"}'']\<close>
    by code_simp
  note eqs = envelopes_written[of mem_svc "''abc''" None "state0 mem0 :: (mem, string option) state"]
  show ?thesis
    by (simp only: eqs[THEN conjunct1] eqs[THEN conjunct2, THEN conjunct1] a b)
qed

subsection \<open>\<^verbatim>\<open>replace\<close>, the last-sync record and \<^verbatim>\<open>push\<close> at concrete inputs\<close>

text \<open>
  Three facts that hold for every instance: an error of \<^verbatim>\<open>parseSyncData\<close> leaves \<^verbatim>\<open>replace\<close>
  as \<open>Incompatible\<close>; a last-sync record read back with a null envelope has no additional
  properties; what an overriding \<^verbatim>\<open>stop\<close> does after \<^verbatim>\<open>await super.stop()\<close> sees the status
  \<open>Syncing\<close> in \<^verbatim>\<open>push\<close> and the status \<open>Idle\<close> in \<^verbatim>\<open>pull\<close>.
\<close>

lemma parseSyncData_error:
  "parseSyncData t = Inl e \<Longrightarrow> e = UserDataSyncError Incompatible"
  by (auto simp: parseSyncData_def split: option.splits if_splits)

lemma replace_parse_failure:
  assumes "resolveContent svc uri s = (Inr (Some t), s0)" and "t \<noteq> []"
    and "parseSyncData t = Inl e"
  shows "replace svc strat uri s = (Inl (UserDataSyncError Incompatible), s0)"
proof -
  have "e = UserDataSyncError Incompatible"
    using assms(3) by (rule parseSyncData_error)
  then show ?thesis
    using assms by (simp add: replace_def)
qed

lemma lastSyncFromText_null_drops:
  "lastSyncFromText t = Some d \<Longrightarrow> syncData d = None \<Longrightarrow> additionalProps d = []"
  by (auto simp: lastSyncFromText_def split: option.splits json.splits if_splits)

lemma status_setStatus [simp]: "status (setStatus svc st s) = st"
  by (simp add: setStatus_def setConflicts_def Let_def)

lemma status_update_same: "status s = st \<Longrightarrow> s\<lparr>status := st\<rparr> = s"
  by simp

lemma push_onStop_status:
  "push svc strat s =
   push svc (strat\<lparr>onStop := (\<lambda>s'. onStop strat (s'\<lparr>status := Syncing\<rparr>))\<rparr>) s"
proof -
  have eq: "\<And>x. (setStatus svc Syncing x)\<lparr>status := Syncing\<rparr> = setStatus svc Syncing x"
    by (rule status_update_same) simp
  show ?thesis
    by (simp add: push_def Let_def eq split: prod.splits sum.splits)
qed

lemma pull_onStop_status:
  "pull svc strat s =
   pull svc (strat\<lparr>onStop := (\<lambda>s'. onStop strat (s'\<lparr>status := Idle\<rparr>))\<rparr>) s"
proof -
  have eq: "(AbstractSynchroniser_stop svc s)\<lparr>status := Idle\<rparr> = AbstractSynchroniser_stop svc s"
    by (rule status_update_same) (simp add: AbstractSynchroniser_stop_def)
  show ?thesis
    by (simp add: pull_def stop_def Let_def eq split: prod.splits sum.splits)
qed

text \<open>
  C7. The claim has \<^verbatim>\<open>replace\<close> return false when the content of the handle is not an
  envelope. The code throws: for the remote-backup handle of a content with an unknown key,
  \<^verbatim>\<open>parseSyncData\<close> throws \<open>Incompatible\<close> and \<^verbatim>\<open>replace\<close> ends with that error, the state as
  it was. A handle whose content is not found does give false.
\<close>

theorem replace_throws_on_unparseable:
  "replace mem_svc (test_strategy False False) (toRemoteBackupResource mem_svc ''1'')
     (state0 mem_foreign)
     = (Inl (UserDataSyncError Incompatible), state0 mem_foreign)
   \<and> replace mem_svc (test_strategy False False) (toRemoteBackupResource mem_svc ''7'')
     (state0 mem_foreign)
     = (Inr False, state0 mem_foreign)"
  by code_simp

text \<open>
  C9. The claim has the additional properties of a last-sync record come back from
  \<^verbatim>\<open>getLastSyncUserData\<close> also when the persisted content is null. The code returns only
  \<^verbatim>\<open>ref\<close> and \<^verbatim>\<open>syncData\<close> then: a record written with \<^verbatim>\<open>skippedExtensions\<close> and a null
  envelope is read back without it, while the same record with an envelope keeps it.
\<close>

theorem lastSync_extras_dropped_for_null:
  "fst (getLastSyncUserData mem_svc
         (snd (updateLastSyncUserData mem_svc
                 \<lparr>ref = ''1'', syncData = None, additionalProps = []\<rparr>
                 [(''skippedExtensions'', JArr [JStr ''a''])]
                 (state0 mem0 :: (mem, string option) state))))
     = Some \<lparr>ref = ''1'', syncData = None, additionalProps = []\<rparr>
   \<and> fst (getLastSyncUserData mem_svc
         (snd (updateLastSyncUserData mem_svc
                 \<lparr>ref = ''1'', syncData = Some (spec_backupEnvelope 1 ''x''), additionalProps = []\<rparr>
                 [(''skippedExtensions'', JArr [JStr ''a''])]
                 (state0 mem0 :: (mem, string option) state))))
     = Some \<lparr>ref = ''1'', syncData = Some (spec_backupEnvelope 1 ''x''),
             additionalProps = [(''skippedExtensions'', JArr [JStr ''a''])]\<rparr>"
  by code_simp

text \<open>
  C8. The claim has \<^verbatim>\<open>push\<close> await \<^verbatim>\<open>stop()\<close> before it sets the status to \<open>Syncing\<close>, as
  \<^verbatim>\<open>pull\<close> does. The code calls \<^verbatim>\<open>this.stop()\<close> without \<^verbatim>\<open>await\<close>: on a file-backed
  synchroniser the deletion of the preview file, which follows \<^verbatim>\<open>await super.stop()\<close>, runs
  when the status is already \<open>Syncing\<close>; in \<^verbatim>\<open>pull\<close> it runs in status \<open>Idle\<close>.
\<close>

theorem push_does_not_await_stop:
  "requests (world (snd (push mem_svc file_strategy (state0 mem_preview))))
     = [''del preview, status Syncing'', ''GET'']
   \<and> requests (world (snd (pull mem_svc file_strategy (state0 mem_preview))))
     = [''del preview, status Idle'', ''GET'']"
  by code_simp

end
